theory Spec2Isabelle
  imports Main
begin

section \<open>Errors and Go values\<close>

text \<open>
  The Go code only ever tests an error against \<open>nil\<close> and hands it on, so an error is a
  value of one datatype and \<open>error option\<close> is Go's \<open>error\<close> (\<open>None\<close> is \<open>nil\<close>).
\<close>

datatype error =
    ErrNoRows            \<comment> \<open>\<open>sql.ErrNoRows\<close>: \<open>QueryRow(...).Scan\<close> found no row\<close>
  | StoreError string    \<comment> \<open>an error reported by the store for a statement\<close>
  | ScanError nat        \<comment> \<open>\<open>Scan\<close>: the column with this index is NULL\<close>
  | ErrSyntax string     \<comment> \<open>\<open>strconv.NumError\<close> of \<open>Atoi\<close>, invalid syntax\<close>
  | ErrRange string      \<comment> \<open>\<open>strconv.NumError\<close> of \<open>Atoi\<close>, value out of range\<close>
  | DecodeError string   \<comment> \<open>an error of \<open>encoding/json\<close>\<close>
  | ReadError string     \<comment> \<open>an error reading the request body\<close>

text \<open>
  A Go slice that is JSON-encoded later: the \<open>nil\<close> slice and a slice with elements.
  \<open>append\<close> to the \<open>nil\<close> slice allocates.
\<close>

datatype 'a slice = NilSlice | Slice "'a list"

fun append_slice :: "'a slice \<Rightarrow> 'a \<Rightarrow> 'a slice" where
  "append_slice NilSlice x = Slice [x]"
| "append_slice (Slice xs) x = Slice (xs @ [x])"

fun elems :: "'a slice \<Rightarrow> 'a list" where
  "elems NilSlice = []"
| "elems (Slice xs) = xs"

section \<open>Domain model (package models)\<close>

text \<open>
  The structs of package \<open>models\<close>. Their declarations are not among the source files;
  the fields are those the handlers and the data access service read and write, with the
  types the signatures of the service give them. The identifier of a recipe and of an
  ingredient is an \<open>int\<close>, as every identifier of the service is. Go's \<open>int\<close> is
  modelled as an unbounded integer: the service does no arithmetic on it.
\<close>

record Recipe =
  R_Id :: int
  R_Name :: string
  R_Description :: string
  R_LongDescription :: string
  R_Url :: string
  R_CategoryId :: int

record Ingedient =
  I_Id :: int
  I_Name :: string
  I_Amount :: string
  I_Url :: string
  I_IsAvailable :: bool

record RecipeInputDto =
  D_Name :: string
  D_Url :: string
  D_CategoryId :: int
  D_Description :: string
  D_LongDescription :: string
  D_IngedientIds :: "int list"

record RecipeWithIngredientsDto =
  W_Recipe :: Recipe
  W_Ingredients :: "Ingedient slice"

section \<open>The relational store\<close>

text \<open>
  The four relations named by the SQL statements of the service. A row keeps the
  column names of the statements; a column that the store may hold as NULL is an
  \<open>option\<close>. Rows are kept in insertion order.
\<close>

record recipe_row =
  r_id :: int
  r_name :: "string option"
  r_description :: "string option"
  r_long_description :: "string option"
  r_imageurl :: "string option"
  r_category_id :: "int option"

record ingredient_row =
  i_id :: int
  i_name :: "string option"
  i_amount :: "string option"
  i_imageurl :: "string option"
  i_isavailable :: "bool option"

record ingredient_recipe_row =
  ir_ingredient_id :: int
  ir_recipe_id :: int

record category_row =
  c_id :: int
  c_name :: string

text \<open>The statements the service sends, with their parameters \<open>$1, $2, ...\<close>.\<close>

datatype stmt =
    InsertRecipeQ string string string string int
  | InsertIngredientRecipeQ int int
  | SelectRecipesQ
  | SelectRecipesByCategoryQ string
  | SelectRecipeByIdQ int
  | SelectIngredientsOfRecipeQ int
  | InsertIngredientQ string string string bool
  | UpdateRecipeQ int string string string
  | SelectIngredientsQ

text \<open>
  The store: its relations, the two identifier sequences behind \<open>RETURNING id\<close>, and the
  statements sent to it so far, in order.
\<close>

record store =
  t_recipe :: "recipe_row list"
  t_ingredient :: "ingredient_row list"
  t_ingredient_recipe :: "ingredient_recipe_row list"
  t_category :: "category_row list"
  recipe_id_seq :: int
  ingredient_id_seq :: int
  issued :: "stmt list"

text \<open>
  What the service cannot decide is a parameter: whether the store refuses a
  statement (a violated constraint, a lost connection), and whether a result set
  breaks off after some rows with an error (\<open>rows.Err()\<close>).
\<close>

record driver =
  refuses :: "store \<Rightarrow> stmt \<Rightarrow> error option"
  cuts :: "store \<Rightarrow> stmt \<Rightarrow> (nat \<times> error) option"

text \<open>The change a statement makes to the relations once the store accepts it.\<close>

fun effect :: "stmt \<Rightarrow> store \<Rightarrow> store" where
  "effect (InsertRecipeQ name description longDescription url categoryId) db =
     db\<lparr>t_recipe := t_recipe db @
           [\<lparr>r_id = recipe_id_seq db, r_name = Some name, r_description = Some description,
             r_long_description = Some longDescription, r_imageurl = Some url,
             r_category_id = Some categoryId\<rparr>],
        recipe_id_seq := recipe_id_seq db + 1\<rparr>"
| "effect (InsertIngredientRecipeQ ingredientId recipeId) db =
     db\<lparr>t_ingredient_recipe := t_ingredient_recipe db @
           [\<lparr>ir_ingredient_id = ingredientId, ir_recipe_id = recipeId\<rparr>]\<rparr>"
| "effect (InsertIngredientQ name amount url isAvailable) db =
     db\<lparr>t_ingredient := t_ingredient db @
           [\<lparr>i_id = ingredient_id_seq db, i_name = Some name, i_amount = Some amount,
             i_imageurl = Some url, i_isavailable = Some isAvailable\<rparr>],
        ingredient_id_seq := ingredient_id_seq db + 1\<rparr>"
| "effect (UpdateRecipeQ rid name description url) db =
     db\<lparr>t_recipe := map (\<lambda>r. if r_id r = rid
                              then r\<lparr>r_name := Some name, r_description := Some description,
                                     r_imageurl := Some url\<rparr>
                              else r) (t_recipe db)\<rparr>"
| "effect SelectRecipesQ db = db"
| "effect (SelectRecipesByCategoryQ c) db = db"
| "effect (SelectRecipeByIdQ rid) db = db"
| "effect (SelectIngredientsOfRecipeQ rid) db = db"
| "effect SelectIngredientsQ db = db"

text \<open>The rows a statement returns, computed on the store before the statement.\<close>

definition select_recipes_by_category :: "string \<Rightarrow> store \<Rightarrow> recipe_row list" where
  "select_recipes_by_category cname db =
     concat (map (\<lambda>r. concat (map (\<lambda>c. if r_category_id r = Some (c_id c) \<and> c_name c = cname
                                         then [r] else []) (t_category db))) (t_recipe db))"

definition select_recipe_by_id :: "int \<Rightarrow> store \<Rightarrow> recipe_row list" where
  "select_recipe_by_id rid db = filter (\<lambda>r. r_id r = rid) (t_recipe db)"

definition select_ingredients_of_recipe :: "int \<Rightarrow> store \<Rightarrow> ingredient_row list" where
  "select_ingredients_of_recipe rid db =
     concat (map (\<lambda>i. concat (map (\<lambda>ir. if i_id i = ir_ingredient_id ir \<and> ir_recipe_id ir = rid
                                          then [i] else []) (t_ingredient_recipe db))) (t_ingredient db))"

text \<open>A result set as the caller sees it: the rows \<open>Next\<close> delivers, then \<open>rows.Err()\<close>.\<close>

record 'r Rows =
  fetched :: "'r list"
  rows_err :: "error option"

definition send :: "driver \<Rightarrow> stmt \<Rightarrow> store \<Rightarrow> error option \<times> store" where
  "send drv q db =
     (case refuses drv db q of
        Some e \<Rightarrow> (Some e, db\<lparr>issued := issued db @ [q]\<rparr>)
      | None \<Rightarrow> (None, effect q (db\<lparr>issued := issued db @ [q]\<rparr>)))"

text \<open>\<open>db.Exec\<close>: the result value is discarded by every caller.\<close>

definition Exec :: "driver \<Rightarrow> stmt \<Rightarrow> store \<Rightarrow> error option \<times> store" where
  "Exec drv q db = send drv q db"

text \<open>\<open>db.Query\<close>, for a statement whose rows on this store are \<open>rs\<close>.\<close>

definition Query :: "driver \<Rightarrow> stmt \<Rightarrow> 'r list \<Rightarrow> store \<Rightarrow> (error + 'r Rows) \<times> store" where
  "Query drv q rs db =
     (case send drv q db of
        (Some e, db') \<Rightarrow> (Inl e, db')
      | (None, db') \<Rightarrow>
          (Inr (case cuts drv db q of
                  None \<Rightarrow> \<lparr>fetched = rs, rows_err = None\<rparr>
                | Some (k, e) \<Rightarrow> \<lparr>fetched = take k rs, rows_err = Some e\<rparr>), db'))"

text \<open>
  \<open>db.QueryRow(...).Scan(...)\<close>: the error of the query, else the error of the result set
  or \<open>ErrNoRows\<close> when there is no first row, else the scan of the first row.
\<close>

definition QueryRow_Scan ::
  "driver \<Rightarrow> stmt \<Rightarrow> 'r list \<Rightarrow> ('r \<Rightarrow> error + 'a) \<Rightarrow> store \<Rightarrow> (error + 'a) \<times> store" where
  "QueryRow_Scan drv q rs scan db =
     (case Query drv q rs db of
        (Inl e, db') \<Rightarrow> (Inl e, db')
      | (Inr cur, db') \<Rightarrow>
          (case fetched cur of
             [] \<Rightarrow> (case rows_err cur of Some e \<Rightarrow> (Inl e, db') | None \<Rightarrow> (Inl ErrNoRows, db'))
           | r # _ \<Rightarrow> (scan r, db')))"

text \<open>\<open>Scan\<close> into the fields of a struct, column by column; a NULL column is an error.\<close>

definition scan_id :: "int \<Rightarrow> error + int" where
  "scan_id v = Inr v"

definition scan_recipe :: "recipe_row \<Rightarrow> error + Recipe" where
  "scan_recipe r =
     (case (r_name r, r_description r, r_long_description r, r_imageurl r, r_category_id r) of
        (None, _, _, _, _) \<Rightarrow> Inl (ScanError 1)
      | (Some name, None, _, _, _) \<Rightarrow> Inl (ScanError 2)
      | (Some name, Some description, None, _, _) \<Rightarrow> Inl (ScanError 3)
      | (Some name, Some description, Some longDescription, None, _) \<Rightarrow> Inl (ScanError 4)
      | (Some name, Some description, Some longDescription, Some url, None) \<Rightarrow> Inl (ScanError 5)
      | (Some name, Some description, Some longDescription, Some url, Some categoryId) \<Rightarrow>
          Inr \<lparr>R_Id = r_id r, R_Name = name, R_Description = description,
               R_LongDescription = longDescription, R_Url = url, R_CategoryId = categoryId\<rparr>)"

definition scan_ingredient :: "ingredient_row \<Rightarrow> error + Ingedient" where
  "scan_ingredient i =
     (case (i_name i, i_amount i, i_imageurl i, i_isavailable i) of
        (None, _, _, _) \<Rightarrow> Inl (ScanError 1)
      | (Some name, None, _, _) \<Rightarrow> Inl (ScanError 2)
      | (Some name, Some amount, None, _) \<Rightarrow> Inl (ScanError 3)
      | (Some name, Some amount, Some url, None) \<Rightarrow> Inl (ScanError 4)
      | (Some name, Some amount, Some url, Some isAvailable) \<Rightarrow>
          Inr \<lparr>I_Id = i_id i, I_Name = name, I_Amount = amount, I_Url = url,
               I_IsAvailable = isAvailable\<rparr>)"

section \<open>The data access service\<close>

text \<open>\<open>InsertRecipeIngredient\<close>: one \<open>Exec\<close> per ingredient id, returning at the first error.\<close>

fun InsertRecipeIngredient :: "driver \<Rightarrow> int \<Rightarrow> int list \<Rightarrow> store \<Rightarrow> error option \<times> store" where
  "InsertRecipeIngredient drv recipeId [] db = (None, db)"
| "InsertRecipeIngredient drv recipeId (ingredientId # ingredientIds) db =
     (case Exec drv (InsertIngredientRecipeQ ingredientId recipeId) db of
        (Some err, db') \<Rightarrow> (Some err, db')
      | (None, db') \<Rightarrow> InsertRecipeIngredient drv recipeId ingredientIds db')"

text \<open>The loop written out in the body of \<open>InsertRecipe\<close>, before its call of
  \<open>InsertRecipeIngredient\<close>.\<close>

fun InsertRecipe_loop :: "driver \<Rightarrow> int \<Rightarrow> int list \<Rightarrow> store \<Rightarrow> error option \<times> store" where
  "InsertRecipe_loop drv rid [] db = (None, db)"
| "InsertRecipe_loop drv rid (ingredientId # ingredientIds) db =
     (case Exec drv (InsertIngredientRecipeQ ingredientId rid) db of
        (Some err, db') \<Rightarrow> (Some err, db')
      | (None, db') \<Rightarrow> InsertRecipe_loop drv rid ingredientIds db')"

definition InsertRecipe ::
  "driver \<Rightarrow> string \<Rightarrow> string \<Rightarrow> string \<Rightarrow> string \<Rightarrow> int \<Rightarrow> int list \<Rightarrow> store
     \<Rightarrow> (int \<times> error option) \<times> store" where
  "InsertRecipe drv name description longDescription url categoryId ingredientIds db =
     (case QueryRow_Scan drv (InsertRecipeQ name description longDescription url categoryId)
             [recipe_id_seq db] scan_id db of
        (Inl err, db1) \<Rightarrow> ((- 1, Some err), db1)
      | (Inr rid, db1) \<Rightarrow>
          (case InsertRecipe_loop drv rid ingredientIds db1 of
             (Some err, db2) \<Rightarrow> ((rid, Some err), db2)
           | (None, db2) \<Rightarrow>
               (case InsertRecipeIngredient drv rid ingredientIds db2 of
                  (Some err, db3) \<Rightarrow> ((rid, Some err), db3)
                | (None, db3) \<Rightarrow> ((rid, None), db3))))"

definition InsertIngredient ::
  "driver \<Rightarrow> string \<Rightarrow> string \<Rightarrow> string \<Rightarrow> bool \<Rightarrow> store \<Rightarrow> (int \<times> error option) \<times> store" where
  "InsertIngredient drv name amount url isAvailable db =
     (case QueryRow_Scan drv (InsertIngredientQ name amount url isAvailable)
             [ingredient_id_seq db] scan_id db of
        (Inl err, db1) \<Rightarrow> ((- 1, Some err), db1)
      | (Inr iid, db1) \<Rightarrow> ((iid, None), db1))"

definition UpdateRecipe ::
  "driver \<Rightarrow> int \<Rightarrow> string \<Rightarrow> string \<Rightarrow> string \<Rightarrow> store \<Rightarrow> error option \<times> store" where
  "UpdateRecipe drv rid name description url db =
     (case Exec drv (UpdateRecipeQ rid name description url) db of
        (Some err, db') \<Rightarrow> (Some err, db')
      | (None, db') \<Rightarrow> (None, db'))"

text \<open>The \<open>for rows.Next()\<close> loop of \<open>GetRecipes\<close>.\<close>

fun GetRecipes_loop :: "recipe_row list \<Rightarrow> Recipe slice \<Rightarrow> error + Recipe slice" where
  "GetRecipes_loop [] recipes = Inr recipes"
| "GetRecipes_loop (row # rows) recipes =
     (case scan_recipe row of
        Inl err \<Rightarrow> Inl err
      | Inr r \<Rightarrow> GetRecipes_loop rows (append_slice recipes r))"

definition GetRecipes :: "driver \<Rightarrow> string \<Rightarrow> store \<Rightarrow> (error + Recipe slice) \<times> store" where
  "GetRecipes drv cname db =
     (case (if cname \<noteq> ''''
            then Query drv (SelectRecipesByCategoryQ cname) (select_recipes_by_category cname db) db
            else Query drv SelectRecipesQ (t_recipe db) db) of
        (Inl err, db') \<Rightarrow> (Inl err, db')
      | (Inr rows, db') \<Rightarrow>
          (case GetRecipes_loop (fetched rows) NilSlice of
             Inl err \<Rightarrow> (Inl err, db')
           | Inr recipes \<Rightarrow>
               (case rows_err rows of
                  Some err \<Rightarrow> (Inl err, db')
                | None \<Rightarrow> (Inr recipes, db'))))"

text \<open>The \<open>for rows.Next()\<close> loop of \<open>GetRecipeWithIngredients\<close>.\<close>

fun GetRecipeWithIngredients_loop ::
  "ingredient_row list \<Rightarrow> Ingedient slice \<Rightarrow> error + Ingedient slice" where
  "GetRecipeWithIngredients_loop [] ingredients = Inr ingredients"
| "GetRecipeWithIngredients_loop (row # rows) ingredients =
     (case scan_ingredient row of
        Inl err \<Rightarrow> Inl err
      | Inr i \<Rightarrow> GetRecipeWithIngredients_loop rows (append_slice ingredients i))"

definition GetRecipeWithIngredients ::
  "driver \<Rightarrow> int \<Rightarrow> store \<Rightarrow> (error + RecipeWithIngredientsDto) \<times> store" where
  "GetRecipeWithIngredients drv recipeId db =
     (case QueryRow_Scan drv (SelectRecipeByIdQ recipeId) (select_recipe_by_id recipeId db)
             scan_recipe db of
        (Inl err, db1) \<Rightarrow> (Inl err, db1)
      | (Inr r, db1) \<Rightarrow>
          (case Query drv (SelectIngredientsOfRecipeQ recipeId)
                  (select_ingredients_of_recipe recipeId db1) db1 of
             (Inl err, db2) \<Rightarrow> (Inl err, db2)
           | (Inr rows, db2) \<Rightarrow>
               (case GetRecipeWithIngredients_loop (fetched rows) NilSlice of
                  Inl err \<Rightarrow> (Inl err, db2)
                | Inr ingredients \<Rightarrow>
                    (case rows_err rows of
                       Some err \<Rightarrow> (Inl err, db2)
                     | None \<Rightarrow> (Inr \<lparr>W_Recipe = r, W_Ingredients = ingredients\<rparr>, db2)))))"

text \<open>The \<open>for rows.Next()\<close> loop of \<open>GetIngredients\<close>.\<close>

fun GetIngredients_loop :: "ingredient_row list \<Rightarrow> Ingedient slice \<Rightarrow> error + Ingedient slice" where
  "GetIngredients_loop [] ingredients = Inr ingredients"
| "GetIngredients_loop (row # rows) ingredients =
     (case scan_ingredient row of
        Inl err \<Rightarrow> Inl err
      | Inr i \<Rightarrow> GetIngredients_loop rows (append_slice ingredients i))"

definition GetIngredients :: "driver \<Rightarrow> store \<Rightarrow> (error + Ingedient slice) \<times> store" where
  "GetIngredients drv db =
     (case Query drv SelectIngredientsQ (t_ingredient db) db of
        (Inl err, db') \<Rightarrow> (Inl err, db')
      | (Inr rows, db') \<Rightarrow>
          (case GetIngredients_loop (fetched rows) NilSlice of
             Inl err \<Rightarrow> (Inl err, db')
           | Inr ingredients \<Rightarrow>
               (case rows_err rows of
                  Some err \<Rightarrow> (Inl err, db')
                | None \<Rightarrow> (Inr ingredients, db'))))"

subsection \<open>Health\<close>

text \<open>
  The connection pool as \<open>Health\<close> sees it: the answer of \<open>PingContext\<close> under a context
  with the given timeout (in nanoseconds), and the counters of \<open>db.Stats()\<close> that
  \<open>Health\<close> reads.
\<close>

record DBStats =
  OpenConnections :: int
  InUse :: int
  Idle :: int
  WaitCount :: int
  WaitDuration :: int
  MaxIdleClosed :: int
  MaxLifetimeClosed :: int

record pool =
  PingContext :: "nat \<Rightarrow> error option"
  Stats :: DBStats

text \<open>\<open>time.Second\<close>, a duration in nanoseconds.\<close>

definition Second :: nat where
  "Second = 1000000000"

text \<open>Decimal text of an integer: \<open>strconv.Itoa\<close>, \<open>strconv.FormatInt(_, 10)\<close> and \<open>%d\<close>.\<close>

fun digits :: "nat \<Rightarrow> string" where
  "digits n = (if n < 10 then [''0123456789'' ! n]
               else digits (n div 10) @ [''0123456789'' ! (n mod 10)])"

declare digits.simps [simp del]

definition Itoa :: "int \<Rightarrow> string" where
  "Itoa i = (if i < 0 then CHR ''-'' # digits (nat (- i)) else digits (nat i))"

text \<open>Integer division of Go, which truncates toward zero.\<close>

definition quot :: "int \<Rightarrow> int \<Rightarrow> int" where
  "quot a b = (if (a < 0) = (b < 0) then \<bar>a\<bar> div \<bar>b\<bar> else - (\<bar>a\<bar> div \<bar>b\<bar>))"

text \<open>
  What the Go libraries compute and the service only passes on: the text of an error
  (\<open>err.Error()\<close>), the text of a duration, and the JSON codecs of \<open>encoding/json\<close>
  for the types of package \<open>models\<close>. \<open>Decode\<close> takes the value of the variable it
  decodes into and returns its value afterwards, with the error.
\<close>

datatype jvalue =
    JNil
  | JBool bool
  | JNumber string
  | JString string
  | JArray "jvalue list"
  | JObject "(string \<times> jvalue) list"

record runtime =
  ErrorString :: "error \<Rightarrow> string"
  DurationString :: "int \<Rightarrow> string"
  Unmarshal :: "string \<Rightarrow> error + (string \<Rightarrow> jvalue option)"
  DecodeRecipeInputDto :: "error + string \<Rightarrow> RecipeInputDto \<Rightarrow> RecipeInputDto \<times> error option"
  DecodeIngedient :: "error + string \<Rightarrow> Ingedient \<Rightarrow> Ingedient \<times> error option"
  MarshalRecipe :: "Recipe \<Rightarrow> string"
  MarshalRecipeWithIngredientsDto :: "RecipeWithIngredientsDto \<Rightarrow> string"

text \<open>
  The result of \<open>Health\<close>: the map it returns, or the end of the process in
  \<open>log.Fatalf\<close>, with the map as it was then (no caller sees it).
\<close>

datatype health = Returns "string \<Rightarrow> string option" | Fatal "string \<Rightarrow> string option"

definition Health_message :: "DBStats \<Rightarrow> (string \<Rightarrow> string option) \<Rightarrow> (string \<Rightarrow> string option)" where
  "Health_message dbStats stats0 =
     (let stats1 = (if OpenConnections dbStats > 40
                    then stats0(''message'' \<mapsto> ''The database is experiencing heavy load.'')
                    else stats0);
          stats2 = (if WaitCount dbStats > 1000
                    then stats1(''message'' \<mapsto> ''The database has a high number of wait events, indicating potential bottlenecks.'')
                    else stats1);
          stats3 = (if MaxIdleClosed dbStats > quot (OpenConnections dbStats) 2
                    then stats2(''message'' \<mapsto> ''Many idle connections are being closed, consider revising the connection pool settings.'')
                    else stats2);
          stats4 = (if MaxLifetimeClosed dbStats > quot (OpenConnections dbStats) 2
                    then stats3(''message'' \<mapsto> ''Many connections are being closed due to max lifetime, consider increasing max lifetime or revising the connection usage pattern.'')
                    else stats3)
      in stats4)"

definition Health :: "runtime \<Rightarrow> pool \<Rightarrow> health" where
  "Health rt p =
     (case PingContext p (1 * Second) of
        Some err \<Rightarrow>
          Fatal (Map.empty(''status'' \<mapsto> ''down'',
                           ''error'' \<mapsto> ''db down: '' @ ErrorString rt err))
      | None \<Rightarrow>
          (let dbStats = Stats p;
               stats = Map.empty(
                 ''status'' \<mapsto> ''up'',
                 ''message'' \<mapsto> ''It's healthy'',
                 ''open_connections'' \<mapsto> Itoa (OpenConnections dbStats),
                 ''in_use'' \<mapsto> Itoa (InUse dbStats),
                 ''idle'' \<mapsto> Itoa (Idle dbStats),
                 ''wait_count'' \<mapsto> Itoa (WaitCount dbStats),
                 ''wait_duration'' \<mapsto> DurationString rt (WaitDuration dbStats),
                 ''max_idle_closed'' \<mapsto> Itoa (MaxIdleClosed dbStats),
                 ''max_lifetime_closed'' \<mapsto> Itoa (MaxLifetimeClosed dbStats))
           in Returns (Health_message dbStats stats)))"

section \<open>The HTTP handler layer\<close>

text \<open>
  A handler's use of its \<open>http.ResponseWriter\<close> is the list of the calls it makes, in
  order. What the client receives is read off that list as \<open>net/http\<close> does: the
  status of the first \<open>WriteHeader\<close> (200 when a \<open>Write\<close> comes first or nothing is
  written), later \<open>WriteHeader\<close> calls having no effect, and the bytes of every \<open>Write\<close>.
\<close>

datatype wcall = SetHeader string string | WriteHeader nat | Write string

fun status_sent :: "wcall list \<Rightarrow> nat" where
  "status_sent [] = 200"
| "status_sent (WriteHeader code # w) = code"
| "status_sent (Write b # w) = 200"
| "status_sent (SetHeader k v # w) = status_sent w"

fun body_sent :: "wcall list \<Rightarrow> string" where
  "body_sent [] = []"
| "body_sent (Write b # w) = b @ body_sent w"
| "body_sent (WriteHeader code # w) = body_sent w"
| "body_sent (SetHeader k v # w) = body_sent w"

text \<open>\<open>http.Error\<close>: two headers, the status, and the message with a line feed.\<close>

definition http_Error :: "string \<Rightarrow> nat \<Rightarrow> wcall list" where
  "http_Error msg code =
     [SetHeader ''Content-Type'' ''text/plain; charset=utf-8'',
      SetHeader ''X-Content-Type-Options'' ''nosniff'',
      WriteHeader code,
      Write (msg @ [CHR 0x0A])]"

text \<open>
  A request: what reading \<open>r.Body\<close> to its end gives, and \<open>r.PathValue\<close>.
  A handler returns with the calls it made on the writer, or panics after them.
\<close>

record request =
  Body :: "error + string"
  PathValue :: "string \<Rightarrow> string"

datatype outcome = Returned "wcall list" | Panicked "wcall list"

fun calls :: "outcome \<Rightarrow> wcall list" where
  "calls (Returned w) = w"
| "calls (Panicked w) = w"

text \<open>
  \<open>strconv.Atoi\<close> on a platform with 64-bit \<open>int\<close>: an optional sign, then decimal
  digits only; the first character that is no digit is a syntax error, a value outside
  the 64-bit range a range error.
\<close>

definition is_digit :: "char \<Rightarrow> bool" where
  "is_digit c = (48 \<le> (of_char c :: nat) \<and> (of_char c :: nat) \<le> 57)"

definition digit_val :: "char \<Rightarrow> nat" where
  "digit_val c = of_char c - 48"

fun ParseUint_loop :: "string \<Rightarrow> nat \<Rightarrow> string \<Rightarrow> error + nat" where
  "ParseUint_loop s0 n [] = Inr n"
| "ParseUint_loop s0 n (c # cs) =
     (if \<not> is_digit c then Inl (ErrSyntax s0)
      else if n \<ge> 18446744073709551615 div 10 + 1 then Inl (ErrRange s0)
      else if n * 10 + digit_val c > 18446744073709551615 then Inl (ErrRange s0)
      else ParseUint_loop s0 (n * 10 + digit_val c) cs)"

definition ParseUint :: "string \<Rightarrow> string \<Rightarrow> error + nat" where
  "ParseUint s0 s = (if s = [] then Inl (ErrSyntax s0) else ParseUint_loop s0 0 s)"

definition Atoi :: "string \<Rightarrow> error + int" where
  "Atoi s =
     (if s = [] then Inl (ErrSyntax s)
      else let neg = (hd s = CHR ''-'');
               s1 = (if hd s = CHR ''+'' \<or> hd s = CHR ''-'' then tl s else s)
           in case ParseUint s s1 of
                Inl err \<Rightarrow> Inl err
              | Inr un \<Rightarrow>
                  if \<not> neg \<and> un \<ge> 9223372036854775808 then Inl (ErrRange s)
                  else if neg \<and> un > 9223372036854775808 then Inl (ErrRange s)
                  else Inr (if neg then - int un else int un))"

text \<open>\<open>json.NewEncoder(w).Encode\<close> of a slice of recipes: \<open>null\<close> for the \<open>nil\<close> slice,
  else the array of the elements; then a line feed.\<close>

fun join_with :: "string \<Rightarrow> string list \<Rightarrow> string" where
  "join_with sep [] = []"
| "join_with sep [x] = x"
| "join_with sep (x # y # ys) = x @ sep @ join_with sep (y # ys)"

fun Encode_recipes :: "runtime \<Rightarrow> Recipe slice \<Rightarrow> string" where
  "Encode_recipes rt NilSlice = ''null'' @ [CHR 0x0A]"
| "Encode_recipes rt (Slice rs) = ''['' @ join_with '','' (map (MarshalRecipe rt) rs) @ '']'' @ [CHR 0x0A]"

definition zero_RecipeInputDto :: RecipeInputDto where
  "zero_RecipeInputDto =
     \<lparr>D_Name = [], D_Url = [], D_CategoryId = 0, D_Description = [], D_LongDescription = [],
      D_IngedientIds = []\<rparr>"

definition zero_Ingedient :: Ingedient where
  "zero_Ingedient = \<lparr>I_Id = 0, I_Name = [], I_Amount = [], I_Url = [], I_IsAvailable = False\<rparr>"

definition insertRecipeHandler :: "runtime \<Rightarrow> driver \<Rightarrow> request \<Rightarrow> store \<Rightarrow> outcome \<times> store" where
  "insertRecipeHandler rt drv r db =
     (case DecodeRecipeInputDto rt (Body r) zero_RecipeInputDto of
        (recipeDto, derr) \<Rightarrow>
          (let w1 = (case derr of Some err \<Rightarrow> http_Error (ErrorString rt err) 400 | None \<Rightarrow> []);
               recipe = \<lparr>R_Id = 0, R_Name = D_Name recipeDto, R_Description = D_Description recipeDto,
                         R_LongDescription = D_LongDescription recipeDto, R_Url = D_Url recipeDto,
                         R_CategoryId = D_CategoryId recipeDto\<rparr>
           in case InsertRecipe drv (R_Name recipe) (R_Description recipe) (R_LongDescription recipe)
                     (R_Url recipe) (R_CategoryId recipe) (D_IngedientIds recipeDto) db of
                ((rid, ierr), db') \<Rightarrow>
                  (let w2 = w1 @ (case ierr of Some err \<Rightarrow> http_Error (ErrorString rt err) 500
                                             | None \<Rightarrow> [])
                   in (Returned (w2 @ [WriteHeader 201, Write (''Recipe id: '' @ Itoa rid)]), db'))))"

definition insertIngredientHandler :: "runtime \<Rightarrow> driver \<Rightarrow> request \<Rightarrow> store \<Rightarrow> outcome \<times> store" where
  "insertIngredientHandler rt drv r db =
     (case DecodeIngedient rt (Body r) zero_Ingedient of
        (ingredient, derr) \<Rightarrow>
          (let w1 = (case derr of Some err \<Rightarrow> http_Error (ErrorString rt err) 400 | None \<Rightarrow> [])
           in case InsertIngredient drv (I_Name ingredient) (I_Amount ingredient) (I_Url ingredient)
                     (I_IsAvailable ingredient) db of
                ((iid, ierr), db') \<Rightarrow>
                  (let w2 = w1 @ (case ierr of Some err \<Rightarrow> http_Error (ErrorString rt err) 500
                                             | None \<Rightarrow> [])
                   in (Returned (w2 @ [WriteHeader 201, Write (''Ingredient id: '' @ Itoa iid)]), db'))))"

text \<open>The end of \<open>getRecipesHandler\<close>, from the call of \<open>GetRecipes\<close> on.\<close>

definition getRecipesHandler_respond :: "runtime \<Rightarrow> driver \<Rightarrow> string \<Rightarrow> store \<Rightarrow> outcome \<times> store" where
  "getRecipesHandler_respond rt drv cname db =
     (case GetRecipes drv cname db of
        (Inl err, db') \<Rightarrow> (Returned (http_Error (ErrorString rt err) 400), db')
      | (Inr recipes, db') \<Rightarrow>
          (Returned [SetHeader ''Content-Type'' ''application/json'', WriteHeader 200,
                     Write (Encode_recipes rt recipes)], db'))"

text \<open>
  \<open>data["category"].(string)\<close>: a key that is absent reads as the \<open>nil\<close> interface value,
  and the assertion panics on every value that is not a string.
\<close>

definition index_map :: "(string \<Rightarrow> jvalue option) \<Rightarrow> string \<Rightarrow> jvalue" where
  "index_map data k = (case data k of None \<Rightarrow> JNil | Some v \<Rightarrow> v)"

fun assert_string :: "jvalue \<Rightarrow> string option" where
  "assert_string (JString s) = Some s"
| "assert_string v = None"

definition getRecipesHandler :: "runtime \<Rightarrow> driver \<Rightarrow> request \<Rightarrow> store \<Rightarrow> outcome \<times> store" where
  "getRecipesHandler rt drv r db =
     (case Body r of
        Inl err \<Rightarrow> (Returned (http_Error (ErrorString rt err) 400), db)
      | Inr body \<Rightarrow>
          if length body > 0 then
            (case Unmarshal rt body of
               Inl err \<Rightarrow> (Returned (http_Error (ErrorString rt err) 400), db)
             | Inr data \<Rightarrow>
                 (case assert_string (index_map data ''category'') of
                    None \<Rightarrow> (Panicked [], db)
                  | Some cname \<Rightarrow> getRecipesHandler_respond rt drv cname db))
          else getRecipesHandler_respond rt drv [] db)"

definition getRecipeWithIngredients :: "runtime \<Rightarrow> driver \<Rightarrow> request \<Rightarrow> store \<Rightarrow> outcome \<times> store" where
  "getRecipeWithIngredients rt drv r db =
     (case Atoi (PathValue r ''recipeId'') of
        Inl err \<Rightarrow> (Returned (http_Error (ErrorString rt err) 400), db)
      | Inr recipeId \<Rightarrow>
          (case GetRecipeWithIngredients drv recipeId db of
             (Inl err, db') \<Rightarrow> (Returned (http_Error (ErrorString rt err) 400), db')
           | (Inr recipe, db') \<Rightarrow>
               (Returned [SetHeader ''Content-Type'' ''application/json'', WriteHeader 200,
                          Write (MarshalRecipeWithIngredientsDto rt recipe @ [CHR 0x0A])], db')))"

section \<open>Notions the properties are stated with\<close>

text \<open>The store answers a statement in full: it neither refuses it nor breaks off its rows.\<close>

definition answers :: "driver \<Rightarrow> store \<Rightarrow> stmt \<Rightarrow> bool" where
  "answers drv db q = (refuses drv db q = None \<and> cuts drv db q = None)"

text \<open>The join rows of a recipe for a list of ingredient ids, and the statements that
  insert them, both in the order of the list.\<close>

definition join_rows :: "int \<Rightarrow> int list \<Rightarrow> ingredient_recipe_row list" where
  "join_rows recipeId ingredientIds =
     map (\<lambda>i. \<lparr>ir_ingredient_id = i, ir_recipe_id = recipeId\<rparr>) ingredientIds"

definition join_stmts :: "int \<Rightarrow> int list \<Rightarrow> stmt list" where
  "join_stmts recipeId ingredientIds = map (\<lambda>i. InsertIngredientRecipeQ i recipeId) ingredientIds"

text \<open>The store after the join rows for these ids were inserted, one statement each.\<close>

definition after_joins :: "int \<Rightarrow> int list \<Rightarrow> store \<Rightarrow> store" where
  "after_joins recipeId ingredientIds db =
     db\<lparr>t_ingredient_recipe := t_ingredient_recipe db @ join_rows recipeId ingredientIds,
        issued := issued db @ join_stmts recipeId ingredientIds\<rparr>"

text \<open>The store after one more statement was sent and refused.\<close>

definition after_refusal :: "stmt \<Rightarrow> store \<Rightarrow> store" where
  "after_refusal q db = db\<lparr>issued := issued db @ [q]\<rparr>"

text \<open>
  The error of \<open>QueryRow(...).Scan(&id)\<close> for an insert that returns the new identifier:
  the store refuses the statement, or the result breaks off before its one row.
\<close>

definition row_insert_error :: "driver \<Rightarrow> store \<Rightarrow> stmt \<Rightarrow> error option" where
  "row_insert_error drv db q =
     (case refuses drv db q of
        Some e \<Rightarrow> Some e
      | None \<Rightarrow> (case cuts drv db q of
                   None \<Rightarrow> None
                 | Some (k, e) \<Rightarrow> if k = 0 then Some e else None))"

section \<open>A store, a driver and a runtime for the examples\<close>

text \<open>
  Modelled from the spec: the schema of the store is not in the source. The spec (section 6)
  gives \<open>recipe.category_id\<close> as a foreign key to \<open>category.id\<close> and both columns of
  \<open>ingredient_recipe\<close> as foreign keys, with no uniqueness on the join relation. This
  driver refuses an insert that breaks one of them and nothing else.
\<close>

definition fk_violation :: error where
  "fk_violation = StoreError ''violates foreign key constraint''"

definition pg :: driver where
  "pg = \<lparr>refuses = (\<lambda>db q. case q of
             InsertRecipeQ name description longDescription url categoryId \<Rightarrow>
               if categoryId \<in> set (map c_id (t_category db)) then None else Some fk_violation
           | InsertIngredientRecipeQ ingredientId recipeId \<Rightarrow>
               if ingredientId \<in> set (map i_id (t_ingredient db)) \<and>
                  recipeId \<in> set (map r_id (t_recipe db)) then None else Some fk_violation
           | _ \<Rightarrow> None),
         cuts = (\<lambda>db q. None)\<rparr>"


definition salt :: ingredient_row where
  "salt = \<lparr>i_id = 1, i_name = Some ''Salt'', i_amount = Some ''1 tsp'', i_imageurl = Some [],
           i_isavailable = Some True\<rparr>"

definition pepper :: ingredient_row where
  "pepper = \<lparr>i_id = 2, i_name = Some ''Pepper'', i_amount = Some ''2 g'', i_imageurl = Some [],
             i_isavailable = Some False\<rparr>"

definition soup :: recipe_row where
  "soup = \<lparr>r_id = 1, r_name = Some ''Soup'', r_description = Some ''Hot'',
           r_long_description = Some ''Very hot'', r_imageurl = Some ''soup.png'',
           r_category_id = Some 1\<rparr>"

definition kitchen :: store where
  "kitchen = \<lparr>t_recipe = [soup], t_ingredient = [salt, pepper], t_ingredient_recipe = [],
              t_category = [\<lparr>c_id = 1, c_name = ''Main''\<rparr>, \<lparr>c_id = 2, c_name = ''Dessert''\<rparr>],
              recipe_id_seq = 2, ingredient_id_seq = 3, issued = []\<rparr>"

text \<open>
  A runtime for the examples. Its codecs are tables over the bodies the examples send:
  the object with the string \<open>Dessert\<close> under \<open>category\<close>, the object with the number 7
  under \<open>category\<close>, the empty object, and text that is no JSON, which every decoder
  into a struct rejects without touching the struct. The texts of the errors and of the
  durations are those of Go for the values the examples use.
\<close>

definition quoted :: "string \<Rightarrow> string" where
  "quoted s = CHR 0x22 # s @ [CHR 0x22]"

definition body_dessert :: string where
  "body_dessert = ''{'' @ quoted ''category'' @ '':'' @ quoted ''Dessert'' @ ''}''"

definition body_seven :: string where
  "body_seven = ''{'' @ quoted ''category'' @ '':7}''"

definition the_runtime :: runtime where
  "the_runtime =
     \<lparr>ErrorString = (\<lambda>e. case e of
          ErrNoRows \<Rightarrow> ''sql: no rows in result set''
        | StoreError m \<Rightarrow> m
        | ScanError k \<Rightarrow> ''sql: Scan error''
        | ErrSyntax s \<Rightarrow> ''strconv.Atoi: parsing '' @ quoted s @ '': invalid syntax''
        | ErrRange s \<Rightarrow> ''strconv.Atoi: parsing '' @ quoted s @ '': value out of range''
        | DecodeError m \<Rightarrow> m
        | ReadError m \<Rightarrow> m),
      DurationString = (\<lambda>d. if d = 0 then ''0s'' else Itoa d @ ''ns''),
      Unmarshal = (\<lambda>b. if b = body_dessert then Inr (Map.empty(''category'' \<mapsto> JString ''Dessert''))
                        else if b = body_seven then Inr (Map.empty(''category'' \<mapsto> JNumber ''7''))
                        else if b = ''{}'' then Inr Map.empty
                        else Inl (DecodeError ''invalid character'')),
      DecodeRecipeInputDto = (\<lambda>b v. (v, Some (DecodeError ''unexpected end of JSON input''))),
      DecodeIngedient = (\<lambda>b v. (v, Some (DecodeError ''unexpected end of JSON input''))),
      MarshalRecipe = (\<lambda>r. ''{}''),
      MarshalRecipeWithIngredientsDto = (\<lambda>d. ''{}'')\<rparr>"

definition get_dessert :: request where
  "get_dessert = \<lparr>Body = Inr body_dessert, PathValue = (\<lambda>k. [])\<rparr>"

definition get_seven :: request where
  "get_seven = \<lparr>Body = Inr body_seven, PathValue = (\<lambda>k. [])\<rparr>"

definition get_empty_object :: request where
  "get_empty_object = \<lparr>Body = Inr ''{}'', PathValue = (\<lambda>k. [])\<rparr>"

definition post_broken :: request where
  "post_broken = \<lparr>Body = Inr ''{'', PathValue = (\<lambda>k. [])\<rparr>"

definition get_abc :: request where
  "get_abc = \<lparr>Body = Inr [], PathValue = (\<lambda>k. if k = ''recipeId'' then ''abc'' else [])\<rparr>"

definition busy_pool :: pool where
  "busy_pool = \<lparr>PingContext = (\<lambda>timeout. None),
                Stats = \<lparr>OpenConnections = 3, InUse = 1, Idle = 2, WaitCount = 0, WaitDuration = 0,
                         MaxIdleClosed = 0, MaxLifetimeClosed = 0\<rparr>\<rparr>"

definition dead_pool :: pool where
  "dead_pool = \<lparr>PingContext = (\<lambda>timeout. Some (StoreError ''context deadline exceeded'')),
                Stats = \<lparr>OpenConnections = 0, InUse = 0, Idle = 0, WaitCount = 0, WaitDuration = 0,
                         MaxIdleClosed = 0, MaxLifetimeClosed = 0\<rparr>\<rparr>"

section \<open>Sending statements\<close>

text \<open>The definitions to unfold when a call is evaluated on the examples.\<close>

lemmas run_defs = QueryRow_Scan_def Query_def Exec_def send_def scan_id_def scan_recipe_def
  scan_ingredient_def select_recipe_by_id_def select_recipes_by_category_def
  select_ingredients_of_recipe_def

lemmas example_defs = pg_def kitchen_def salt_def pepper_def soup_def fk_violation_def

lemmas request_defs = get_dessert_def get_seven_def get_empty_object_def post_broken_def get_abc_def
  body_dessert_def body_seven_def quoted_def

lemma send_refused:
  "refuses drv db q = Some e \<Longrightarrow> send drv q db = (Some e, after_refusal q db)"
  by (simp add: send_def after_refusal_def)

lemma send_accepted:
  "refuses drv db q = None \<Longrightarrow> send drv q db = (None, effect q (after_refusal q db))"
  by (simp add: send_def after_refusal_def)

lemma Query_answered:
  "answers drv db q \<Longrightarrow>
     Query drv q rs db = (Inr \<lparr>fetched = rs, rows_err = None\<rparr>, effect q (after_refusal q db))"
  by (simp add: answers_def Query_def send_def after_refusal_def)

lemma Query_Inr:
  "fst (Query drv q rs db) = Inr cur \<Longrightarrow> rows_err cur = None \<Longrightarrow> answers drv db q \<and> fetched cur = rs"
  by (auto simp: answers_def Query_def send_def split: option.splits prod.splits)

lemma after_joins_Nil: "after_joins rid [] db = db"
  by (simp add: after_joins_def join_rows_def join_stmts_def)

lemma after_joins_Cons:
  "after_joins rid (i # ids) db = after_joins rid ids (after_joins rid [i] db)"
  by (simp add: after_joins_def join_rows_def join_stmts_def)

lemma Exec_join:
  "Exec drv (InsertIngredientRecipeQ i rid) db =
     (case refuses drv db (InsertIngredientRecipeQ i rid) of
        Some e \<Rightarrow> (Some e, after_refusal (InsertIngredientRecipeQ i rid) db)
      | None \<Rightarrow> (None, after_joins rid [i] db))"
  by (simp add: Exec_def send_def after_joins_def after_refusal_def join_rows_def join_stmts_def
      split: option.splits)

text \<open>The loop in the body of InsertRecipe and InsertRecipeIngredient are the same function.\<close>

lemma InsertRecipe_loop_eq:
  "InsertRecipe_loop drv rid ids db = InsertRecipeIngredient drv rid ids db"
  by (induction ids arbitrary: db) (simp_all split: prod.splits option.splits)

lemma join_loop_result:
  "InsertRecipeIngredient drv rid ids db = (res, db') \<Longrightarrow>
     (res = None \<longrightarrow> db' = after_joins rid ids db) \<and>
     (\<forall>e. res = Some e \<longrightarrow>
        (\<exists>pre i post. ids = pre @ i # post \<and>
           refuses drv (after_joins rid pre db) (InsertIngredientRecipeQ i rid) = Some e \<and>
           db' = after_refusal (InsertIngredientRecipeQ i rid) (after_joins rid pre db)))"
proof (induction ids arbitrary: db)
  case Nil
  then show ?case by (simp add: after_joins_Nil)
next
  case (Cons a ids)
  show ?case
  proof (cases "refuses drv db (InsertIngredientRecipeQ a rid)")
    case None
    with Cons.prems have rec: "InsertRecipeIngredient drv rid ids (after_joins rid [a] db) = (res, db')"
      by (simp add: Exec_join)
    note ih = Cons.IH[OF rec]
    show ?thesis
    proof (intro conjI impI allI)
      assume "res = None"
      with ih show "db' = after_joins rid (a # ids) db"
        by (simp add: after_joins_Cons[of rid a ids])
    next
      fix e assume "res = Some e"
      with ih obtain pre i post where p: "ids = pre @ i # post"
        "refuses drv (after_joins rid pre (after_joins rid [a] db)) (InsertIngredientRecipeQ i rid) = Some e"
        "db' = after_refusal (InsertIngredientRecipeQ i rid) (after_joins rid pre (after_joins rid [a] db))"
        by blast
      have "a # ids = (a # pre) @ i # post" using p(1) by simp
      moreover have "after_joins rid (a # pre) db = after_joins rid pre (after_joins rid [a] db)"
        by (rule after_joins_Cons)
      ultimately show "\<exists>pre i post. a # ids = pre @ i # post \<and>
           refuses drv (after_joins rid pre db) (InsertIngredientRecipeQ i rid) = Some e \<and>
           db' = after_refusal (InsertIngredientRecipeQ i rid) (after_joins rid pre db)"
        using p(2,3) by metis
    qed
  next
    case (Some e0)
    with Cons.prems have "res = Some e0" "db' = after_refusal (InsertIngredientRecipeQ a rid) db"
      by (simp_all add: Exec_join)
    then show ?thesis using Some
      by (auto simp: after_joins_Nil intro!: exI[of _ "[]"])
  qed
qed

section \<open>InsertRecipeIngredient\<close>

text \<open>
  C8. \<open>InsertRecipeIngredient\<close> inserts one join row per ingredient id, in the order of
  the list. When no insert is refused, the store is the old one with these rows (and
  statements) appended. When an insert is refused with \<open>e\<close>, the call returns \<open>e\<close> at
  once: the list splits into the ids before the refused one, whose rows are in the
  store, the refused id, and the ids after it; the refused statement is the last one
  sent, and no row was inserted for it or for a later id.
\<close>
theorem InsertRecipeIngredient_stops_at_first_error:
  "InsertRecipeIngredient drv recipeId ingredientIds db = (res, db') \<Longrightarrow>
     (res = None \<longrightarrow> db' = after_joins recipeId ingredientIds db) \<and>
     (\<forall>e. res = Some e \<longrightarrow>
        (\<exists>pre i post. ingredientIds = pre @ i # post \<and>
           refuses drv (after_joins recipeId pre db) (InsertIngredientRecipeQ i recipeId) = Some e \<and>
           db' = after_refusal (InsertIngredientRecipeQ i recipeId) (after_joins recipeId pre db)))"
  by (rule join_loop_result)

theorem InsertRecipeIngredient_stops_at_first_error_witness:
  "InsertRecipeIngredient pg 1 [1, 9, 2] kitchen =
     (Some fk_violation, after_refusal (InsertIngredientRecipeQ 9 1) (after_joins 1 [1] kitchen)) \<and>
   t_ingredient_recipe (snd (InsertRecipeIngredient pg 1 [1, 9, 2] kitchen))
     = [\<lparr>ir_ingredient_id = 1, ir_recipe_id = 1\<rparr>] \<and>
   issued (snd (InsertRecipeIngredient pg 1 [1, 9, 2] kitchen))
     = [InsertIngredientRecipeQ 1 1, InsertIngredientRecipeQ 9 1] \<and>
   (\<exists>pre i post. [1, 9, 2] = pre @ i # post \<and>
      refuses pg (after_joins 1 pre kitchen) (InsertIngredientRecipeQ i 1) = Some fk_violation \<and>
      snd (InsertRecipeIngredient pg 1 [1, 9, 2] kitchen)
        = after_refusal (InsertIngredientRecipeQ i 1) (after_joins 1 pre kitchen))"
proof -
  have run: "InsertRecipeIngredient pg 1 [1, 9, 2] kitchen =
     (Some fk_violation, after_refusal (InsertIngredientRecipeQ 9 1) (after_joins 1 [1] kitchen))"
    by (simp add: Exec_join pg_def kitchen_def salt_def pepper_def soup_def after_joins_def
        after_refusal_def join_rows_def join_stmts_def)
  from InsertRecipeIngredient_stops_at_first_error [OF run]
  have ex: "\<exists>pre i post. [1, 9, 2] = pre @ i # post \<and>
      refuses pg (after_joins 1 pre kitchen) (InsertIngredientRecipeQ i 1) = Some fk_violation \<and>
      after_refusal (InsertIngredientRecipeQ 9 1) (after_joins 1 [1] kitchen)
        = after_refusal (InsertIngredientRecipeQ i 1) (after_joins 1 pre kitchen)"
    by simp
  show ?thesis using run ex
    by (simp add: after_joins_def after_refusal_def join_rows_def join_stmts_def kitchen_def)
qed


section \<open>Identifiers returned on failure\<close>

lemma QueryRow_Scan_returning:
  "QueryRow_Scan drv q [v] scan_id db =
     (case refuses drv db q of
        Some e \<Rightarrow> (Inl e, after_refusal q db)
      | None \<Rightarrow> (case row_insert_error drv db q of
                   Some e \<Rightarrow> (Inl e, effect q (after_refusal q db))
                 | None \<Rightarrow> (Inr v, effect q (after_refusal q db))))"
  by (auto simp: QueryRow_Scan_def Query_def send_def after_refusal_def row_insert_error_def scan_id_def
      split: option.splits prod.splits list.splits nat.splits)

lemma InsertRecipe_row_error:
  "row_insert_error drv db (InsertRecipeQ n d l u c) = Some e \<Longrightarrow>
     fst (InsertRecipe drv n d l u c ids db) = (- 1, Some e)"
  by (auto simp: InsertRecipe_def QueryRow_Scan_returning row_insert_error_def split: option.splits)


text \<open>The store once the recipe row is in.\<close>

lemma InsertRecipe_after_row:
  assumes "row_insert_error drv db (InsertRecipeQ n d l u c) = None"
  shows "InsertRecipe drv n d l u c ids db =
     (let q = InsertRecipeQ n d l u c; rid = recipe_id_seq db; db1 = effect q (after_refusal q db) in
      case InsertRecipeIngredient drv rid ids db1 of
        (Some err, db2) \<Rightarrow> ((rid, Some err), db2)
      | (None, db2) \<Rightarrow>
          (case InsertRecipeIngredient drv rid ids db2 of
             (Some err, db3) \<Rightarrow> ((rid, Some err), db3)
           | (None, db3) \<Rightarrow> ((rid, None), db3)))"
proof -
  from assms have r: "refuses drv db (InsertRecipeQ n d l u c) = None"
    by (simp add: row_insert_error_def split: option.splits)
  show ?thesis
    by (simp add: InsertRecipe_def QueryRow_Scan_returning r assms InsertRecipe_loop_eq Let_def)
qed

lemma InsertRecipe_id:
  assumes "row_insert_error drv db (InsertRecipeQ n d l u c) = None"
  shows "fst (fst (InsertRecipe drv n d l u c ids db)) = recipe_id_seq db"
  by (simp add: InsertRecipe_after_row[OF assms] Let_def split: prod.splits option.splits)







section \<open>Inserting a recipe and fetching it\<close>

lemma InsertRecipe_success_store:
  assumes "InsertRecipe drv n d l u c ids db = ((rid, None), db')"
  shows "rid = recipe_id_seq db \<and>
         db' = after_joins rid ids (after_joins rid ids
                 (effect (InsertRecipeQ n d l u c) (after_refusal (InsertRecipeQ n d l u c) db)))"
proof -
  let ?q = "InsertRecipeQ n d l u c"
  let ?db1 = "effect ?q (after_refusal ?q db)"
  have ok: "row_insert_error drv db ?q = None"
  proof (cases "row_insert_error drv db ?q")
    case (Some e)
    from InsertRecipe_row_error[OF Some, of ids] assms show ?thesis by simp
  qed simp
  have rid: "rid = recipe_id_seq db"
    using InsertRecipe_id[OF ok, of ids] assms by simp
  obtain r2 db2 where l1: "InsertRecipeIngredient drv rid ids ?db1 = (r2, db2)"
    by (cases "InsertRecipeIngredient drv rid ids ?db1")
  obtain r3 db3 where l2: "InsertRecipeIngredient drv rid ids db2 = (r3, db3)"
    by (cases "InsertRecipeIngredient drv rid ids db2")
  from assms have res: "r2 = None \<and> r3 = None \<and> db' = db3"
    using l1 l2 unfolding rid
    by (simp add: InsertRecipe_after_row[OF ok] Let_def del: effect.simps split: option.splits)
  from join_loop_result[OF l1] res have "db2 = after_joins rid ids ?db1" by simp
  moreover from join_loop_result[OF l2] res have "db3 = after_joins rid ids db2" by simp
  ultimately show ?thesis using rid res by simp
qed

text \<open>Every successful InsertRecipe leaves two join rows per listed ingredient id.\<close>

lemma InsertRecipe_join_rows_twice:
  assumes "InsertRecipe drv n d l u c ids db = ((rid, None), db')"
  shows "t_ingredient_recipe db' = t_ingredient_recipe db @ join_rows rid ids @ join_rows rid ids"
  using InsertRecipe_success_store[OF assms]
  by (simp add: after_joins_def after_refusal_def)

lemma GetRecipeWithIngredients_loop_elems:
  "GetRecipeWithIngredients_loop rows acc = Inr ingredients \<Longrightarrow>
     map Inr (elems ingredients) = map Inr (elems acc) @ map scan_ingredient rows"
proof (induction rows arbitrary: acc)
  case Nil
  then show ?case by simp
next
  case (Cons row rows)
  then obtain x where x: "scan_ingredient row = Inr x"
    and rest: "GetRecipeWithIngredients_loop rows (append_slice acc x) = Inr ingredients"
    by (auto split: sum.splits)
  have "elems (append_slice acc x) = elems acc @ [x]" by (cases acc) simp_all
  with Cons.IH[OF rest] x show ?case by simp
qed

lemma scan_ingredient_id: "scan_ingredient row = Inr x \<Longrightarrow> I_Id x = i_id row"
  by (auto simp: scan_ingredient_def split: option.splits)

lemma scanned_ids:
  assumes "map Inr xs = map scan_ingredient rows"
  shows "map I_Id xs = map i_id rows"
  using assms
proof (induction rows arbitrary: xs)
  case Nil
  then show ?case by simp
next
  case (Cons row rows)
  then obtain x xs' where xs: "xs = x # xs'" by (cases xs) auto
  with Cons.prems have "scan_ingredient row = Inr x" "map Inr xs' = map scan_ingredient rows"
    by simp_all
  with Cons.IH xs show ?case by (simp add: scan_ingredient_id)
qed

lemma GetRecipeWithIngredients_Inr:
  assumes "fst (GetRecipeWithIngredients drv rid db) = Inr dto"
  shows "map I_Id (elems (W_Ingredients dto))
           = map i_id (select_ingredients_of_recipe rid (after_refusal (SelectRecipeByIdQ rid) db))"
proof -
  let ?db1 = "after_refusal (SelectRecipeByIdQ rid) db"
  obtain r1 db1 where q1: "QueryRow_Scan drv (SelectRecipeByIdQ rid) (select_recipe_by_id rid db)
             scan_recipe db = (r1, db1)"
    by (cases "QueryRow_Scan drv (SelectRecipeByIdQ rid) (select_recipe_by_id rid db) scan_recipe db")
  have db1: "db1 = ?db1"
    using q1 by (auto simp: QueryRow_Scan_def Query_def send_def after_refusal_def
        split: option.splits prod.splits list.splits sum.splits)
  obtain r2 db2 where q2: "Query drv (SelectIngredientsOfRecipeQ rid)
                  (select_ingredients_of_recipe rid db1) db1 = (r2, db2)"
    by (cases "Query drv (SelectIngredientsOfRecipeQ rid) (select_ingredients_of_recipe rid db1) db1")
  from assms q1 q2 obtain cur where cur: "r2 = Inr cur" "rows_err cur = None"
    "GetRecipeWithIngredients_loop (fetched cur) NilSlice = Inr (W_Ingredients dto)"
    by (auto simp: GetRecipeWithIngredients_def split: sum.splits option.splits)
  from Query_Inr[of drv "SelectIngredientsOfRecipeQ rid" "select_ingredients_of_recipe rid db1" db1 cur]
    q2 cur
  have "fetched cur = select_ingredients_of_recipe rid db1" by simp
  with GetRecipeWithIngredients_loop_elems[OF cur(3)]
  have "map Inr (elems (W_Ingredients dto)) = map scan_ingredient (select_ingredients_of_recipe rid db1)"
    by simp
  then show ?thesis unfolding db1 by (rule scanned_ids)
qed

lemma set_select_ingredients_of_recipe:
  "i_id ` set (select_ingredients_of_recipe rid db) =
     {i. i \<in> i_id ` set (t_ingredient db) \<and>
         (\<exists>ir\<in>set (t_ingredient_recipe db). ir_ingredient_id ir = i \<and> ir_recipe_id ir = rid)}"
  by (auto simp: select_ingredients_of_recipe_def split: if_splits) force

lemma join_rows_has:
  "(\<exists>ir\<in>set (join_rows rid ids). ir_ingredient_id ir = i \<and> ir_recipe_id ir = rid) = (i \<in> set ids)"
  by (force simp: join_rows_def)

text \<open>
  The part of the round trip that holds: when the identifier is new to the join relation
  and every listed ingredient exists, the ingredients fetched after a successful
  \<open>InsertRecipe\<close> are those of the list, as a set.
\<close>

lemma InsertRecipe_then_fetch_ids:
  assumes ins: "InsertRecipe drv n d l u c ids db = ((rid, None), db')"
    and fresh: "\<forall>ir\<in>set (t_ingredient_recipe db). ir_recipe_id ir \<noteq> rid"
    and known: "set ids \<subseteq> i_id ` set (t_ingredient db)"
    and get: "fst (GetRecipeWithIngredients drv rid db') = Inr dto"
  shows "I_Id ` set (elems (W_Ingredients dto)) = set ids"
proof -
  let ?db1 = "after_refusal (SelectRecipeByIdQ rid) db'"
  from InsertRecipe_join_rows_twice[OF ins]
  have joins: "t_ingredient_recipe ?db1 = t_ingredient_recipe db @ join_rows rid ids @ join_rows rid ids"
    by (simp add: after_refusal_def)
  from InsertRecipe_success_store[OF ins]
  have ingr: "t_ingredient ?db1 = t_ingredient db"
    by (simp add: after_refusal_def after_joins_def)
  have "I_Id ` set (elems (W_Ingredients dto)) = set (map I_Id (elems (W_Ingredients dto)))"
    by simp
  also have "\<dots> = i_id ` set (select_ingredients_of_recipe rid ?db1)"
    unfolding GetRecipeWithIngredients_Inr[OF get] by simp
  also have "\<dots> = set ids"
  proof -
    have "\<And>i. (\<exists>ir\<in>set (t_ingredient_recipe db @ join_rows rid ids @ join_rows rid ids).
                  ir_ingredient_id ir = i \<and> ir_recipe_id ir = rid) = (i \<in> set ids)"
      using fresh join_rows_has[of rid ids] by (simp add: bex_Un)
    then show ?thesis
      unfolding set_select_ingredients_of_recipe joins ingr using known by auto
  qed
  finally show ?thesis .
qed

text \<open>
  C1. The claim: after \<open>InsertRecipe\<close> with the ingredient ids \<open>[i1, i2]\<close>, every insert
  succeeding, the join relation holds one row per ingredient id and the fetched
  ingredients are \<open>i1\<close> and \<open>i2\<close>. On the store \<open>kitchen\<close>, which holds the ingredients 1
  and 2 and the category 1, \<open>InsertRecipe\<close> with the ids \<open>[1, 2]\<close> returns the identifier 2
  and no error, and leaves four join rows, two for each ingredient id: the loop in
  the body of \<open>InsertRecipe\<close> inserts them and the call of \<open>InsertRecipeIngredient\<close>
  inserts them again. \<open>GetRecipeWithIngredients\<close> then returns each ingredient twice.
\<close>
theorem InsertRecipe_then_fetch_doubles_ingredients:
  "fst (InsertRecipe pg ''Stew'' ''Thick'' ''Very thick'' ''stew.png'' 1 [1, 2] kitchen) = (2, None) \<and>
   t_ingredient_recipe (snd (InsertRecipe pg ''Stew'' ''Thick'' ''Very thick'' ''stew.png'' 1 [1, 2] kitchen))
     = join_rows 2 [1, 2, 1, 2] \<and>
   length (filter (\<lambda>ir. ir_ingredient_id ir = 1 \<and> ir_recipe_id ir = 2)
     (t_ingredient_recipe (snd (InsertRecipe pg ''Stew'' ''Thick'' ''Very thick'' ''stew.png'' 1 [1, 2] kitchen))))
     = 2 \<and>
   fst (GetRecipeWithIngredients pg 2
         (snd (InsertRecipe pg ''Stew'' ''Thick'' ''Very thick'' ''stew.png'' 1 [1, 2] kitchen)))
     = Inr \<lparr>W_Recipe = \<lparr>R_Id = 2, R_Name = ''Stew'', R_Description = ''Thick'',
                         R_LongDescription = ''Very thick'', R_Url = ''stew.png'', R_CategoryId = 1\<rparr>,
            W_Ingredients = Slice
              [\<lparr>I_Id = 1, I_Name = ''Salt'', I_Amount = ''1 tsp'', I_Url = [], I_IsAvailable = True\<rparr>,
               \<lparr>I_Id = 1, I_Name = ''Salt'', I_Amount = ''1 tsp'', I_Url = [], I_IsAvailable = True\<rparr>,
               \<lparr>I_Id = 2, I_Name = ''Pepper'', I_Amount = ''2 g'', I_Url = [], I_IsAvailable = False\<rparr>,
               \<lparr>I_Id = 2, I_Name = ''Pepper'', I_Amount = ''2 g'', I_Url = [], I_IsAvailable = False\<rparr>]\<rparr>"
proof -
  have run: "InsertRecipe pg ''Stew'' ''Thick'' ''Very thick'' ''stew.png'' 1 [1, 2] kitchen =
    ((2, None),
     kitchen\<lparr>t_recipe := [soup, \<lparr>r_id = 2, r_name = Some ''Stew'', r_description = Some ''Thick'',
                 r_long_description = Some ''Very thick'', r_imageurl = Some ''stew.png'',
                 r_category_id = Some 1\<rparr>],
             t_ingredient_recipe := join_rows 2 [1, 2, 1, 2],
             recipe_id_seq := 3,
             issued := InsertRecipeQ ''Stew'' ''Thick'' ''Very thick'' ''stew.png'' 1 # join_stmts 2 [1, 2, 1, 2]\<rparr>)"
    by (simp add: InsertRecipe_def run_defs example_defs join_rows_def join_stmts_def)
  show ?thesis
    unfolding run
    by (simp add: GetRecipeWithIngredients_def run_defs example_defs join_rows_def join_stmts_def)
qed

section \<open>Fetching a recipe that does not exist\<close>

text \<open>
  C5. When no recipe row has the identifier, \<open>GetRecipeWithIngredients\<close> returns an
  error and never a record; the error is \<open>ErrNoRows\<close> whenever the store answers the
  query, and the query for the recipe row is the only statement sent.
\<close>
theorem GetRecipeWithIngredients_not_found:
  assumes "\<forall>r\<in>set (t_recipe db). r_id r \<noteq> recipeId"
  shows "(\<exists>e. fst (GetRecipeWithIngredients drv recipeId db) = Inl e) \<and>
         (answers drv db (SelectRecipeByIdQ recipeId) \<longrightarrow>
            fst (GetRecipeWithIngredients drv recipeId db) = Inl ErrNoRows) \<and>
         snd (GetRecipeWithIngredients drv recipeId db) = after_refusal (SelectRecipeByIdQ recipeId) db"
proof -
  from assms have none: "select_recipe_by_id recipeId db = []"
    by (auto simp: select_recipe_by_id_def filter_empty_conv)
  show ?thesis
    by (auto simp: GetRecipeWithIngredients_def QueryRow_Scan_def Query_def send_def none answers_def
        after_refusal_def split: option.splits prod.splits)
qed

theorem GetRecipeWithIngredients_not_found_witness:
  "7 \<notin> set (map r_id (t_recipe kitchen)) \<and>
   answers pg kitchen (SelectRecipeByIdQ 7) \<and>
   fst (GetRecipeWithIngredients pg 7 kitchen) = Inl ErrNoRows \<and>
   snd (GetRecipeWithIngredients pg 7 kitchen) = after_refusal (SelectRecipeByIdQ 7) kitchen"
proof -
  have h: "\<forall>r\<in>set (t_recipe kitchen). r_id r \<noteq> 7"
    by (simp add: kitchen_def soup_def)
  have a: "answers pg kitchen (SelectRecipeByIdQ 7)"
    by (simp add: answers_def pg_def)
  have h': "7 \<notin> set (map r_id (t_recipe kitchen))"
    by (simp add: kitchen_def soup_def)
  from GetRecipeWithIngredients_not_found [OF h, of pg] a h' show ?thesis by blast
qed

section \<open>UpdateRecipe\<close>

lemma UpdateRecipe_result:
  "UpdateRecipe drv rid name description url db =
     (case refuses drv db (UpdateRecipeQ rid name description url) of
        Some e \<Rightarrow> (Some e, after_refusal (UpdateRecipeQ rid name description url) db)
      | None \<Rightarrow> (None, effect (UpdateRecipeQ rid name description url)
                         (after_refusal (UpdateRecipeQ rid name description url) db)))"
  by (simp add: UpdateRecipe_def Exec_def send_def after_refusal_def split: option.splits)

lemma map_unmatched:
  "\<forall>r\<in>set rs. r_id r \<noteq> rid \<Longrightarrow> map (\<lambda>r. if r_id r = rid then f r else r) rs = rs"
  by (induction rs) simp_all

text \<open>
  C9. \<open>UpdateRecipe\<close> returns an error only when the store refuses the statement. It
  leaves the ingredients, the join relation, the categories and both sequences as they
  were. Row by row, the recipes keep their identifier, long description and category;
  a row with another identifier is unchanged, and a row with the identifier has the new
  name, description and image URL once the statement is accepted. When no row has the
  identifier, the recipes are unchanged.
\<close>
theorem UpdateRecipe_frame:
  assumes "UpdateRecipe drv rid name description url db = (res, db')"
  shows "res = refuses drv db (UpdateRecipeQ rid name description url) \<and>
         t_ingredient db' = t_ingredient db \<and>
         t_ingredient_recipe db' = t_ingredient_recipe db \<and>
         t_category db' = t_category db \<and>
         recipe_id_seq db' = recipe_id_seq db \<and>
         ingredient_id_seq db' = ingredient_id_seq db \<and>
         issued db' = issued db @ [UpdateRecipeQ rid name description url] \<and>
         list_all2 (\<lambda>r r'.
             r_id r' = r_id r \<and>
             r_long_description r' = r_long_description r \<and>
             r_category_id r' = r_category_id r \<and>
             (if r_id r = rid \<and> res = None
              then r_name r' = Some name \<and> r_description r' = Some description \<and>
                   r_imageurl r' = Some url
              else r' = r))
           (t_recipe db) (t_recipe db') \<and>
         ((\<forall>r\<in>set (t_recipe db). r_id r \<noteq> rid) \<longrightarrow> t_recipe db' = t_recipe db)"
proof (cases "refuses drv db (UpdateRecipeQ rid name description url)")
  case (Some e)
  with assms have "res = Some e" "db' = after_refusal (UpdateRecipeQ rid name description url) db"
    by (simp_all add: UpdateRecipe_result)
  then show ?thesis using Some
    by (simp add: after_refusal_def list_all2_same)
next
  case None
  with assms have r: "res = None"
    and d: "db' = effect (UpdateRecipeQ rid name description url)
                    (after_refusal (UpdateRecipeQ rid name description url) db)"
    by (simp_all add: UpdateRecipe_result)
  have rows: "t_recipe db' = map (\<lambda>r. if r_id r = rid
        then r\<lparr>r_name := Some name, r_description := Some description, r_imageurl := Some url\<rparr>
        else r) (t_recipe db)"
    by (simp add: d after_refusal_def)
  have frame: "list_all2 (\<lambda>r r'.
             r_id r' = r_id r \<and>
             r_long_description r' = r_long_description r \<and>
             r_category_id r' = r_category_id r \<and>
             (if r_id r = rid \<and> res = None
              then r_name r' = Some name \<and> r_description r' = Some description \<and>
                   r_imageurl r' = Some url
              else r' = r))
           (t_recipe db) (t_recipe db')"
    unfolding rows by (simp add: list_all2_map2 list_all2_same r)
  have same: "(\<forall>r\<in>set (t_recipe db). r_id r \<noteq> rid) \<longrightarrow> t_recipe db' = t_recipe db"
    unfolding rows by (simp add: map_unmatched)
  have rest: "t_ingredient db' = t_ingredient db \<and>
         t_ingredient_recipe db' = t_ingredient_recipe db \<and>
         t_category db' = t_category db \<and>
         recipe_id_seq db' = recipe_id_seq db \<and>
         ingredient_id_seq db' = ingredient_id_seq db \<and>
         issued db' = issued db @ [UpdateRecipeQ rid name description url]"
    by (simp add: d after_refusal_def)
  show ?thesis using r None frame same rest by simp
qed

theorem UpdateRecipe_frame_witness:
  "UpdateRecipe pg 1 ''Broth'' ''Clear'' ''broth.png'' kitchen =
     (None, kitchen\<lparr>t_recipe := [soup\<lparr>r_name := Some ''Broth'', r_description := Some ''Clear'',
                                      r_imageurl := Some ''broth.png''\<rparr>],
                    issued := [UpdateRecipeQ 1 ''Broth'' ''Clear'' ''broth.png'']\<rparr>) \<and>
   t_ingredient_recipe (snd (UpdateRecipe pg 1 ''Broth'' ''Clear'' ''broth.png'' kitchen)) = [] \<and>
   7 \<notin> set (map r_id (t_recipe kitchen)) \<and>
   fst (UpdateRecipe pg 7 ''Broth'' ''Clear'' ''broth.png'' kitchen) = None \<and>
   t_recipe (snd (UpdateRecipe pg 7 ''Broth'' ''Clear'' ''broth.png'' kitchen)) = t_recipe kitchen"
proof -
  have run: "UpdateRecipe pg 1 ''Broth'' ''Clear'' ''broth.png'' kitchen =
     (None, kitchen\<lparr>t_recipe := [soup\<lparr>r_name := Some ''Broth'', r_description := Some ''Clear'',
                                      r_imageurl := Some ''broth.png''\<rparr>],
                    issued := [UpdateRecipeQ 1 ''Broth'' ''Clear'' ''broth.png'']\<rparr>)"
    by (simp add: UpdateRecipe_def run_defs example_defs)
  have h: "\<forall>r\<in>set (t_recipe kitchen). r_id r \<noteq> 7"
    by (simp add: kitchen_def soup_def)
  have none: "refuses pg kitchen (UpdateRecipeQ 7 ''Broth'' ''Clear'' ''broth.png'') = None"
    by (simp add: pg_def)
  from UpdateRecipe_frame [OF run]
  have "t_ingredient_recipe (snd (UpdateRecipe pg 1 ''Broth'' ''Clear'' ''broth.png'' kitchen))
          = t_ingredient_recipe kitchen"
    unfolding run by simp
  then have a: "t_ingredient_recipe (snd (UpdateRecipe pg 1 ''Broth'' ''Clear'' ''broth.png'' kitchen)) = []"
    by (simp add: kitchen_def)
  from UpdateRecipe_frame [OF prod.collapse [symmetric], of pg 7 "''Broth''" "''Clear''" "''broth.png''" kitchen]
    h none
  have b: "fst (UpdateRecipe pg 7 ''Broth'' ''Clear'' ''broth.png'' kitchen) = None \<and>
           t_recipe (snd (UpdateRecipe pg 7 ''Broth'' ''Clear'' ''broth.png'' kitchen)) = t_recipe kitchen"
    by simp
  have h': "7 \<notin> set (map r_id (t_recipe kitchen))"
    by (simp add: kitchen_def soup_def)
  show ?thesis using run a b h' by blast
qed

section \<open>The type assertion of getRecipesHandler\<close>

text \<open>
  C2. When the body of a GET /recipes request is not empty and decodes to an object
  whose field \<open>category\<close> is absent or holds a value that is no string,
  \<open>getRecipesHandler\<close> panics in the type assertion: nothing was written to the
  response and no statement was sent to the store.
\<close>
theorem getRecipesHandler_panics_without_string_category:
  assumes "Body r = Inr body" and "body \<noteq> []" and "Unmarshal rt body = Inr data"
    and "\<forall>s. data ''category'' \<noteq> Some (JString s)"
  shows "getRecipesHandler rt drv r db = (Panicked [], db)"
proof -
  have "assert_string (index_map data ''category'') = None"
  proof (cases "data ''category''")
    case None
    then show ?thesis by (simp add: index_map_def)
  next
    case (Some v)
    with assms(4) show ?thesis by (cases v) (simp_all add: index_map_def)
  qed
  with assms(1-3) show ?thesis by (simp add: getRecipesHandler_def)
qed

theorem getRecipesHandler_panics_without_string_category_witness:
  "getRecipesHandler the_runtime pg get_seven kitchen = (Panicked [], kitchen) \<and>
   getRecipesHandler the_runtime pg get_empty_object kitchen = (Panicked [], kitchen)"
proof -
  have u7: "Unmarshal the_runtime body_seven = Inr (Map.empty(''category'' \<mapsto> JNumber ''7''))"
    by (simp add: the_runtime_def request_defs)
  have u0: "Unmarshal the_runtime ''{}'' = Inr Map.empty"
    by (simp add: the_runtime_def request_defs)
  have a: "getRecipesHandler the_runtime pg get_seven kitchen = (Panicked [], kitchen)"
    by (rule getRecipesHandler_panics_without_string_category [OF _ _ u7])
       (simp_all add: request_defs)
  have b: "getRecipesHandler the_runtime pg get_empty_object kitchen = (Panicked [], kitchen)"
    by (rule getRecipesHandler_panics_without_string_category [OF _ _ u0])
       (simp_all add: request_defs)
  show ?thesis using a b by simp
qed

section \<open>A path segment that is no integer\<close>

text \<open>
  C6. When \<open>Atoi\<close> rejects the path segment \<open>recipeId\<close>, the handler of
  GET /recipe/{recipeId} answers 400 with the message of the error and returns; the store
  is the one it was given, with no statement sent.
\<close>
theorem getRecipeWithIngredients_rejects_non_integer:
  assumes "Atoi (PathValue r ''recipeId'') = Inl err"
  shows "getRecipeWithIngredients rt drv r db = (Returned (http_Error (ErrorString rt err) 400), db) \<and>
         status_sent (calls (fst (getRecipeWithIngredients rt drv r db))) = 400 \<and>
         body_sent (calls (fst (getRecipeWithIngredients rt drv r db))) = ErrorString rt err @ [CHR 0x0A] \<and>
         issued (snd (getRecipeWithIngredients rt drv r db)) = issued db"
  using assms by (simp add: getRecipeWithIngredients_def http_Error_def)

lemma Atoi_abc: "Atoi ''abc'' = Inl (ErrSyntax ''abc'')"
  by (simp add: Atoi_def ParseUint_def is_digit_def)

theorem getRecipeWithIngredients_rejects_non_integer_witness:
  "Atoi (PathValue get_abc ''recipeId'') = Inl (ErrSyntax ''abc'') \<and>
   getRecipeWithIngredients the_runtime pg get_abc kitchen =
     (Returned (http_Error (''strconv.Atoi: parsing '' @ quoted ''abc'' @ '': invalid syntax'') 400),
      kitchen) \<and>
   status_sent (calls (fst (getRecipeWithIngredients the_runtime pg get_abc kitchen))) = 400 \<and>
   issued (snd (getRecipeWithIngredients the_runtime pg get_abc kitchen)) = []"
proof -
  have h: "Atoi (PathValue get_abc ''recipeId'') = Inl (ErrSyntax ''abc'')"
    by (simp add: get_abc_def Atoi_abc)
  have t: "ErrorString the_runtime (ErrSyntax ''abc'')
             = ''strconv.Atoi: parsing '' @ quoted ''abc'' @ '': invalid syntax''"
    by (simp add: the_runtime_def)
  have k: "issued kitchen = []" by (simp add: kitchen_def)
  note th = getRecipeWithIngredients_rejects_non_integer [OF h, of the_runtime pg kitchen]
  show ?thesis using h th unfolding t k by blast
qed


lemma ParseUint_loop_non_digit:
  "\<exists>c\<in>set cs. \<not> is_digit c \<Longrightarrow> \<exists>e. ParseUint_loop s0 n cs = Inl e"
  by (induction cs arbitrary: n) auto

text \<open>A path segment with a character that is no digit, after an optional sign, is no integer.\<close>

lemma Atoi_non_digit:
  assumes "\<exists>c\<in>set (if hd s = CHR ''+'' \<or> hd s = CHR ''-'' then tl s else s). \<not> is_digit c"
  shows "\<exists>e. Atoi s = Inl e"
proof (cases "s = []")
  case True
  then show ?thesis by (simp add: Atoi_def)
next
  case False
  let ?s1 = "if hd s = CHR ''+'' \<or> hd s = CHR ''-'' then tl s else s"
  from assms have ne: "?s1 \<noteq> []" by auto
  from ParseUint_loop_non_digit[OF assms, of s 0] obtain e where "ParseUint_loop s 0 ?s1 = Inl e" ..
  with ne have "ParseUint s ?s1 = Inl e" by (simp add: ParseUint_def)
  with False show ?thesis by (simp add: Atoi_def Let_def)
qed

section \<open>Handlers that go on after a decoding error\<close>

lemma InsertRecipe_no_ingredients:
  "InsertRecipe drv n d l u c [] db =
     (case refuses drv db (InsertRecipeQ n d l u c) of
        Some e \<Rightarrow> ((- 1, Some e), after_refusal (InsertRecipeQ n d l u c) db)
      | None \<Rightarrow>
          (case row_insert_error drv db (InsertRecipeQ n d l u c) of
             Some e \<Rightarrow> ((- 1, Some e), effect (InsertRecipeQ n d l u c) (after_refusal (InsertRecipeQ n d l u c) db))
           | None \<Rightarrow> ((recipe_id_seq db, None),
                       effect (InsertRecipeQ n d l u c) (after_refusal (InsertRecipeQ n d l u c) db))))"
  by (simp add: InsertRecipe_def QueryRow_Scan_returning del: effect.simps split: option.splits)

lemma InsertRecipe_no_ingredients_issued:
  "issued (snd (InsertRecipe drv n d l u c [] db)) = issued db @ [InsertRecipeQ n d l u c]"
  by (simp add: InsertRecipe_no_ingredients after_refusal_def split: option.splits)

lemma InsertIngredient_issued:
  "issued (snd (InsertIngredient drv n a u b db)) = issued db @ [InsertIngredientQ n a u b]"
  by (simp add: InsertIngredient_def QueryRow_Scan_returning after_refusal_def split: option.splits)

text \<open>
  C3. When the decoder of POST /recipe (of POST /ingredient) fails and leaves the decoded
  value at its zero value, the handler writes the 400 error response and goes on: it
  calls \<open>InsertRecipe\<close> (\<open>InsertIngredient\<close>) with the zero values, so the insert
  statement is sent to the store, writes a 500 error response as well when the insert
  fails, and then calls \<open>WriteHeader(201)\<close> and writes the line with the identifier
  to the same response writer.
\<close>
theorem insert_handlers_continue_after_decode_error:
  "(DecodeRecipeInputDto rt (Body r) zero_RecipeInputDto = (zero_RecipeInputDto, Some err) \<longrightarrow>
      (case InsertRecipe drv [] [] [] [] 0 [] db of
         ((rid, ierr), db') \<Rightarrow>
           insertRecipeHandler rt drv r db =
             (Returned (http_Error (ErrorString rt err) 400 @
                        (case ierr of Some e \<Rightarrow> http_Error (ErrorString rt e) 500 | None \<Rightarrow> []) @
                        [WriteHeader 201, Write (''Recipe id: '' @ Itoa rid)]), db') \<and>
           issued db' = issued db @ [InsertRecipeQ [] [] [] [] 0])) \<and>
   (DecodeIngedient rt (Body r) zero_Ingedient = (zero_Ingedient, Some err) \<longrightarrow>
      (case InsertIngredient drv [] [] [] False db of
         ((iid, ierr), db') \<Rightarrow>
           insertIngredientHandler rt drv r db =
             (Returned (http_Error (ErrorString rt err) 400 @
                        (case ierr of Some e \<Rightarrow> http_Error (ErrorString rt e) 500 | None \<Rightarrow> []) @
                        [WriteHeader 201, Write (''Ingredient id: '' @ Itoa iid)]), db') \<and>
           issued db' = issued db @ [InsertIngredientQ [] [] [] False]))"
proof (intro conjI impI)
  assume d: "DecodeRecipeInputDto rt (Body r) zero_RecipeInputDto = (zero_RecipeInputDto, Some err)"
  obtain rid ierr db' where run: "InsertRecipe drv [] [] [] [] 0 [] db = ((rid, ierr), db')"
    by (cases "InsertRecipe drv [] [] [] [] 0 [] db") auto
  have log: "issued db' = issued db @ [InsertRecipeQ [] [] [] [] 0]"
    using InsertRecipe_no_ingredients_issued[of drv "[]" "[]" "[]" "[]" 0 db] run by simp
  have "insertRecipeHandler rt drv r db =
          (Returned (http_Error (ErrorString rt err) 400 @
                     (case ierr of Some e \<Rightarrow> http_Error (ErrorString rt e) 500 | None \<Rightarrow> []) @
                     [WriteHeader 201, Write (''Recipe id: '' @ Itoa rid)]), db')"
    unfolding insertRecipeHandler_def d by (simp add: zero_RecipeInputDto_def run Let_def)
  with log show "case InsertRecipe drv [] [] [] [] 0 [] db of
         ((rid, ierr), db') \<Rightarrow>
           insertRecipeHandler rt drv r db =
             (Returned (http_Error (ErrorString rt err) 400 @
                        (case ierr of Some e \<Rightarrow> http_Error (ErrorString rt e) 500 | None \<Rightarrow> []) @
                        [WriteHeader 201, Write (''Recipe id: '' @ Itoa rid)]), db') \<and>
           issued db' = issued db @ [InsertRecipeQ [] [] [] [] 0]"
    by (simp add: run)
next
  assume d: "DecodeIngedient rt (Body r) zero_Ingedient = (zero_Ingedient, Some err)"
  obtain iid ierr db' where run: "InsertIngredient drv [] [] [] False db = ((iid, ierr), db')"
    by (cases "InsertIngredient drv [] [] [] False db") auto
  have log: "issued db' = issued db @ [InsertIngredientQ [] [] [] False]"
    using InsertIngredient_issued[of drv "[]" "[]" "[]" False db] run by simp
  have "insertIngredientHandler rt drv r db =
          (Returned (http_Error (ErrorString rt err) 400 @
                     (case ierr of Some e \<Rightarrow> http_Error (ErrorString rt e) 500 | None \<Rightarrow> []) @
                     [WriteHeader 201, Write (''Ingredient id: '' @ Itoa iid)]), db')"
    unfolding insertIngredientHandler_def d by (simp add: zero_Ingedient_def run Let_def)
  with log show "case InsertIngredient drv [] [] [] False db of
         ((iid, ierr), db') \<Rightarrow>
           insertIngredientHandler rt drv r db =
             (Returned (http_Error (ErrorString rt err) 400 @
                        (case ierr of Some e \<Rightarrow> http_Error (ErrorString rt e) 500 | None \<Rightarrow> []) @
                        [WriteHeader 201, Write (''Ingredient id: '' @ Itoa iid)]), db') \<and>
           issued db' = issued db @ [InsertIngredientQ [] [] [] False]"
    by (simp add: run)
qed

text \<open>The client still receives the status of the first \<open>WriteHeader\<close>.\<close>

lemma status_sent_after_http_Error: "status_sent (http_Error msg code @ w) = code"
  by (simp add: http_Error_def)

lemma Itoa_3: "Itoa 3 = ''3''"
  by (simp add: Itoa_def digits.simps)

lemma Itoa_minus_1: "Itoa (- 1) = ''-1''"
  by (simp add: Itoa_def digits.simps)

theorem insert_handlers_continue_after_decode_error_witness:
  "DecodeRecipeInputDto the_runtime (Body post_broken) zero_RecipeInputDto
     = (zero_RecipeInputDto, Some (DecodeError ''unexpected end of JSON input'')) \<and>
   InsertRecipe pg [] [] [] [] 0 [] kitchen
     = ((- 1, Some fk_violation), after_refusal (InsertRecipeQ [] [] [] [] 0) kitchen) \<and>
   insertRecipeHandler the_runtime pg post_broken kitchen =
     (Returned (http_Error ''unexpected end of JSON input'' 400 @
                http_Error ''violates foreign key constraint'' 500 @
                [WriteHeader 201, Write ''Recipe id: -1'']),
      after_refusal (InsertRecipeQ [] [] [] [] 0) kitchen) \<and>
   DecodeIngedient the_runtime (Body post_broken) zero_Ingedient
     = (zero_Ingedient, Some (DecodeError ''unexpected end of JSON input'')) \<and>
   fst (InsertIngredient pg [] [] [] False kitchen) = (3, None) \<and>
   fst (insertIngredientHandler the_runtime pg post_broken kitchen) =
     Returned (http_Error ''unexpected end of JSON input'' 400 @
               [WriteHeader 201, Write ''Ingredient id: 3'']) \<and>
   status_sent (calls (fst (insertIngredientHandler the_runtime pg post_broken kitchen))) = 400"
proof -
  have d1: "DecodeRecipeInputDto the_runtime (Body post_broken) zero_RecipeInputDto
     = (zero_RecipeInputDto, Some (DecodeError ''unexpected end of JSON input''))"
    by (simp add: the_runtime_def)
  have d2: "DecodeIngedient the_runtime (Body post_broken) zero_Ingedient
     = (zero_Ingedient, Some (DecodeError ''unexpected end of JSON input''))"
    by (simp add: the_runtime_def)
  have i1: "InsertRecipe pg [] [] [] [] 0 [] kitchen
     = ((- 1, Some fk_violation), after_refusal (InsertRecipeQ [] [] [] [] 0) kitchen)"
    by (simp add: InsertRecipe_def run_defs example_defs after_refusal_def)
  have i2: "InsertIngredient pg [] [] [] False kitchen
     = ((3, None), effect (InsertIngredientQ [] [] [] False)
                     (after_refusal (InsertIngredientQ [] [] [] False) kitchen))"
    by (simp add: InsertIngredient_def run_defs example_defs after_refusal_def)
  have t1: "ErrorString the_runtime (DecodeError ''unexpected end of JSON input'')
              = ''unexpected end of JSON input''"
    by (simp add: the_runtime_def)
  have t2: "ErrorString the_runtime fk_violation = ''violates foreign key constraint''"
    by (simp add: the_runtime_def fk_violation_def)
  note th = insert_handlers_continue_after_decode_error [of the_runtime post_broken
      "DecodeError ''unexpected end of JSON input''" pg kitchen]
  from th d1 have a: "insertRecipeHandler the_runtime pg post_broken kitchen =
     (Returned (http_Error ''unexpected end of JSON input'' 400 @
                http_Error ''violates foreign key constraint'' 500 @
                [WriteHeader 201, Write ''Recipe id: -1'']),
      after_refusal (InsertRecipeQ [] [] [] [] 0) kitchen)"
    by (simp add: i1 t1 t2 Itoa_minus_1)
  from th d2 have b: "fst (insertIngredientHandler the_runtime pg post_broken kitchen) =
     Returned (http_Error ''unexpected end of JSON input'' 400 @
               [WriteHeader 201, Write ''Ingredient id: 3''])"
    by (simp add: i2 t1 Itoa_3 del: effect.simps)
  have c: "status_sent (calls (fst (insertIngredientHandler the_runtime pg post_broken kitchen))) = 400"
    by (simp add: b http_Error_def)
  show ?thesis using d1 d2 i1 i2 a b c by simp
qed


section \<open>GetRecipes with no matching recipe\<close>

lemma GetRecipes_loop_elems:
  "GetRecipes_loop rows acc = Inr recipes \<Longrightarrow>
     map Inr (elems recipes) = map Inr (elems acc) @ map scan_recipe rows"
proof (induction rows arbitrary: acc)
  case Nil
  then show ?case by simp
next
  case (Cons row rows)
  then obtain x where x: "scan_recipe row = Inr x"
    and rest: "GetRecipes_loop rows (append_slice acc x) = Inr recipes"
    by (auto split: sum.splits)
  have "elems (append_slice acc x) = elems acc @ [x]" by (cases acc) simp_all
  with Cons.IH[OF rest] x show ?case by simp
qed

lemma GetRecipes_loop_total:
  "\<forall>row\<in>set rows. \<exists>x. scan_recipe row = Inr x \<Longrightarrow> \<exists>recipes. GetRecipes_loop rows acc = Inr recipes"
  by (induction rows arbitrary: acc) auto

lemma GetRecipes_all:
  "GetRecipes drv [] db =
     (case Query drv SelectRecipesQ (t_recipe db) db of
        (Inl err, db') \<Rightarrow> (Inl err, db')
      | (Inr rows, db') \<Rightarrow>
          (case GetRecipes_loop (fetched rows) NilSlice of
             Inl err \<Rightarrow> (Inl err, db')
           | Inr recipes \<Rightarrow>
               (case rows_err rows of
                  Some err \<Rightarrow> (Inl err, db')
                | None \<Rightarrow> (Inr recipes, db'))))"
  by (simp add: GetRecipes_def)

lemma GetRecipes_empty_result:
  assumes "cname \<noteq> []" and "select_recipes_by_category cname db = []"
    and "answers drv db (SelectRecipesByCategoryQ cname)"
  shows "GetRecipes drv cname db = (Inr NilSlice, after_refusal (SelectRecipesByCategoryQ cname) db)"
  using assms by (simp add: GetRecipes_def Query_answered)

lemma GetRecipes_full_returns:
  assumes "answers drv db SelectRecipesQ"
    and "\<forall>row\<in>set (t_recipe db). \<exists>x. scan_recipe row = Inr x"
  shows "\<exists>recipes. fst (GetRecipes drv [] db) = Inr recipes"
proof -
  from GetRecipes_loop_total[OF assms(2), of NilSlice]
  obtain recipes where "GetRecipes_loop (t_recipe db) NilSlice = Inr recipes" ..
  with assms(1) show ?thesis by (simp add: GetRecipes_all Query_answered)
qed

lemma GetRecipes_full_rows:
  assumes "fst (GetRecipes drv [] db) = Inr recipes"
  shows "map Inr (elems recipes) = map scan_recipe (t_recipe db)"
proof -
  obtain res db' where q: "Query drv SelectRecipesQ (t_recipe db) db = (res, db')"
    by (cases "Query drv SelectRecipesQ (t_recipe db) db")
  from assms q obtain cur where cur: "res = Inr cur" "rows_err cur = None"
    "GetRecipes_loop (fetched cur) NilSlice = Inr recipes"
    by (auto simp: GetRecipes_all split: sum.splits option.splits)
  from Query_Inr[of drv SelectRecipesQ "t_recipe db" db cur] q cur
  have "fetched cur = t_recipe db" by simp
  with GetRecipes_loop_elems[OF cur(3)] show ?thesis by simp
qed

text \<open>
  C4, as amended. For a category name that is not empty and matches no recipe, on a
  store that answers the query, \<open>GetRecipes\<close> returns the \<open>nil\<close> slice and no error, and
  a GET /recipes request whose body decodes to an object with that name under
  \<open>category\<close> is answered with status 200 and the body \<open>null\<close>, followed by a line
  feed: the JSON encoding of the \<open>nil\<close> slice, not \<open>[]\<close>. \<open>GetRecipes\<close> with the
  empty name returns a list when the store answers and no column of a recipe row is
  NULL, and a list it returns holds the recipe rows of the store, each scanned, all
  of them and in their order.
\<close>
theorem GetRecipes_no_match_is_nil:
  "(cname \<noteq> [] \<and> select_recipes_by_category cname db = [] \<and>
    answers drv db (SelectRecipesByCategoryQ cname) \<longrightarrow>
      fst (GetRecipes drv cname db) = Inr NilSlice \<and>
      (Body r = Inr body \<and> body \<noteq> [] \<and> Unmarshal rt body = Inr data \<and>
       data ''category'' = Some (JString cname) \<longrightarrow>
         fst (getRecipesHandler rt drv r db) =
           Returned [SetHeader ''Content-Type'' ''application/json'', WriteHeader 200,
                     Write (''null'' @ [CHR 0x0A])] \<and>
         status_sent (calls (fst (getRecipesHandler rt drv r db))) = 200 \<and>
         body_sent (calls (fst (getRecipesHandler rt drv r db))) = ''null'' @ [CHR 0x0A])) \<and>
   (answers drv db SelectRecipesQ \<and> (\<forall>row\<in>set (t_recipe db). \<exists>x. scan_recipe row = Inr x) \<longrightarrow>
      (\<exists>recipes. fst (GetRecipes drv [] db) = Inr recipes)) \<and>
   (\<forall>recipes. fst (GetRecipes drv [] db) = Inr recipes \<longrightarrow>
      map Inr (elems recipes) = map scan_recipe (t_recipe db))"
proof (intro conjI impI allI)
  assume h: "cname \<noteq> [] \<and> select_recipes_by_category cname db = [] \<and>
    answers drv db (SelectRecipesByCategoryQ cname)"
  then have g: "GetRecipes drv cname db = (Inr NilSlice, after_refusal (SelectRecipesByCategoryQ cname) db)"
    by (simp add: GetRecipes_empty_result)
  then show "fst (GetRecipes drv cname db) = Inr NilSlice" by simp
  assume b: "Body r = Inr body \<and> body \<noteq> [] \<and> Unmarshal rt body = Inr data \<and>
       data ''category'' = Some (JString cname)"
  then show resp: "fst (getRecipesHandler rt drv r db) =
           Returned [SetHeader ''Content-Type'' ''application/json'', WriteHeader 200,
                     Write (''null'' @ [CHR 0x0A])]"
    by (simp add: getRecipesHandler_def getRecipesHandler_respond_def index_map_def g)
  show "status_sent (calls (fst (getRecipesHandler rt drv r db))) = 200"
    by (simp add: resp)
  show "body_sent (calls (fst (getRecipesHandler rt drv r db))) = ''null'' @ [CHR 0x0A]"
    by (simp add: resp)
next
  assume "answers drv db SelectRecipesQ \<and> (\<forall>row\<in>set (t_recipe db). \<exists>x. scan_recipe row = Inr x)"
  then show "\<exists>recipes. fst (GetRecipes drv [] db) = Inr recipes"
    by (simp add: GetRecipes_full_returns)
next
  fix recipes assume "fst (GetRecipes drv [] db) = Inr recipes"
  then show "map Inr (elems recipes) = map scan_recipe (t_recipe db)"
    by (rule GetRecipes_full_rows)
qed

theorem GetRecipes_no_match_is_nil_witness:
  "select_recipes_by_category ''Dessert'' kitchen = [] \<and>
   answers pg kitchen (SelectRecipesByCategoryQ ''Dessert'') \<and>
   fst (GetRecipes pg ''Dessert'' kitchen) = Inr NilSlice \<and>
   Unmarshal the_runtime body_dessert = Inr (Map.empty(''category'' \<mapsto> JString ''Dessert'')) \<and>
   status_sent (calls (fst (getRecipesHandler the_runtime pg get_dessert kitchen))) = 200 \<and>
   body_sent (calls (fst (getRecipesHandler the_runtime pg get_dessert kitchen))) = ''null'' @ [CHR 0x0A] \<and>
   answers pg kitchen SelectRecipesQ \<and>
   fst (GetRecipes pg [] kitchen) =
     Inr (Slice [\<lparr>R_Id = 1, R_Name = ''Soup'', R_Description = ''Hot'', R_LongDescription = ''Very hot'',
                   R_Url = ''soup.png'', R_CategoryId = 1\<rparr>]) \<and>
   map Inr [\<lparr>R_Id = 1, R_Name = ''Soup'', R_Description = ''Hot'', R_LongDescription = ''Very hot'',
              R_Url = ''soup.png'', R_CategoryId = 1\<rparr>] = map scan_recipe (t_recipe kitchen)"
proof -
  have s: "select_recipes_by_category ''Dessert'' kitchen = []"
    by (simp add: select_recipes_by_category_def example_defs)
  have a: "answers pg kitchen (SelectRecipesByCategoryQ ''Dessert'')"
    by (simp add: answers_def pg_def)
  have a2: "answers pg kitchen SelectRecipesQ"
    by (simp add: answers_def pg_def)
  have u: "Unmarshal the_runtime body_dessert = Inr (Map.empty(''category'' \<mapsto> JString ''Dessert''))"
    by (simp add: the_runtime_def)
  have b: "Body get_dessert = Inr body_dessert \<and> body_dessert \<noteq> []"
    by (simp add: request_defs)
  have all: "fst (GetRecipes pg [] kitchen) =
     Inr (Slice [\<lparr>R_Id = 1, R_Name = ''Soup'', R_Description = ''Hot'', R_LongDescription = ''Very hot'',
                   R_Url = ''soup.png'', R_CategoryId = 1\<rparr>])"
    by (simp add: GetRecipes_def run_defs example_defs)
  note th = GetRecipes_no_match_is_nil [of "''Dessert''" kitchen pg get_dessert body_dessert the_runtime
      "Map.empty(''category'' \<mapsto> JString ''Dessert'')"]
  from th s a have c1: "fst (GetRecipes pg ''Dessert'' kitchen) = Inr NilSlice" by simp
  from th s a u b have c2:
    "status_sent (calls (fst (getRecipesHandler the_runtime pg get_dessert kitchen))) = 200 \<and>
     body_sent (calls (fst (getRecipesHandler the_runtime pg get_dessert kitchen))) = ''null'' @ [CHR 0x0A]"
    by simp
  from th all have c3:
    "map Inr [\<lparr>R_Id = 1, R_Name = ''Soup'', R_Description = ''Hot'', R_LongDescription = ''Very hot'',
              R_Url = ''soup.png'', R_CategoryId = 1\<rparr>] = map scan_recipe (t_recipe kitchen)"
    by (metis elems.simps(2))
  show ?thesis using s a a2 u all c1 c2 c3 by blast
qed

text \<open>
  C4, as stated, fails: on the store \<open>kitchen\<close>, which has no recipe of the category
  \<open>Dessert\<close>, the request with the body \<open>{"category":"Dessert"}\<close> is answered with the
  body \<open>null\<close> and a line feed, which is not the empty JSON array.
\<close>

theorem getRecipesHandler_no_match_body_counterexample:
  "select_recipes_by_category ''Dessert'' kitchen = [] \<and>
   fst (getRecipesHandler the_runtime pg get_dessert kitchen) =
     Returned [SetHeader ''Content-Type'' ''application/json'', WriteHeader 200,
               Write (''null'' @ [CHR 0x0A])] \<and>
   body_sent (calls (fst (getRecipesHandler the_runtime pg get_dessert kitchen))) \<noteq> ''[]'' \<and>
   body_sent (calls (fst (getRecipesHandler the_runtime pg get_dessert kitchen))) \<noteq> ''[]'' @ [CHR 0x0A]"
proof -
  have s: "select_recipes_by_category ''Dessert'' kitchen = []"
    by (simp add: select_recipes_by_category_def example_defs)
  have u: "Unmarshal the_runtime body_dessert = Inr (Map.empty(''category'' \<mapsto> JString ''Dessert''))"
    by (simp add: the_runtime_def)
  have ne: "body_dessert \<noteq> []" by (simp add: request_defs)
  have r: "fst (getRecipesHandler the_runtime pg get_dessert kitchen) =
     Returned [SetHeader ''Content-Type'' ''application/json'', WriteHeader 200,
               Write (''null'' @ [CHR 0x0A])]"
    by (simp add: getRecipesHandler_def get_dessert_def u ne getRecipesHandler_respond_def index_map_def
        GetRecipes_def Query_def send_def s pg_def)
  show ?thesis by (simp add: s r)
qed

section \<open>The health check\<close>

lemma Health_message_keeps:
  "k \<noteq> ''message'' \<Longrightarrow> Health_message dbStats stats k = stats k"
  by (simp add: Health_message_def Let_def)

lemma Health_message_set:
  "stats ''message'' = Some m \<Longrightarrow> \<exists>m'. Health_message dbStats stats ''message'' = Some m'"
  by (simp add: Health_message_def Let_def)

lemma Health_up:
  assumes "PingContext p (1 * Second) = None"
  shows "\<exists>stats. Health rt p = Returns stats \<and>
           stats ''status'' = Some ''up'' \<and>
           stats ''message'' \<noteq> None \<and>
           stats ''open_connections'' = Some (Itoa (OpenConnections (Stats p))) \<and>
           stats ''in_use'' = Some (Itoa (InUse (Stats p))) \<and>
           stats ''idle'' = Some (Itoa (Idle (Stats p))) \<and>
           stats ''wait_count'' = Some (Itoa (WaitCount (Stats p))) \<and>
           stats ''wait_duration'' = Some (DurationString rt (WaitDuration (Stats p))) \<and>
           stats ''max_idle_closed'' = Some (Itoa (MaxIdleClosed (Stats p))) \<and>
           stats ''max_lifetime_closed'' = Some (Itoa (MaxLifetimeClosed (Stats p)))"
  using assms
  by (simp add: Health_def Let_def Health_message_keeps Health_message_set)

lemma Health_down:
  assumes "PingContext p (1 * Second) = Some err"
  shows "\<exists>stats. Health rt p = Fatal stats \<and> stats ''status'' = Some ''down'' \<and>
           stats ''error'' = Some (''db down: '' @ ErrorString rt err)"
  using assms by (simp add: Health_def)

text \<open>
  C7. \<open>Health\<close> pings the store under a timeout of one second (\<open>10^9\<close> nanoseconds).
  When the ping succeeds it returns a map with the status \<open>up\<close>, a message and the
  counters of the connection pool. When the ping fails it sets the status \<open>down\<close> and
  ends the process, so every map it returns has the status \<open>up\<close>.
\<close>
theorem Health_up_or_fatal:
  "1 * Second = 1000000000 \<and>
   (PingContext p (1 * Second) = None \<longrightarrow>
      (\<exists>stats. Health rt p = Returns stats \<and>
           stats ''status'' = Some ''up'' \<and>
           stats ''message'' \<noteq> None \<and>
           stats ''open_connections'' = Some (Itoa (OpenConnections (Stats p))) \<and>
           stats ''in_use'' = Some (Itoa (InUse (Stats p))) \<and>
           stats ''idle'' = Some (Itoa (Idle (Stats p))) \<and>
           stats ''wait_count'' = Some (Itoa (WaitCount (Stats p))) \<and>
           stats ''wait_duration'' = Some (DurationString rt (WaitDuration (Stats p))) \<and>
           stats ''max_idle_closed'' = Some (Itoa (MaxIdleClosed (Stats p))) \<and>
           stats ''max_lifetime_closed'' = Some (Itoa (MaxLifetimeClosed (Stats p))))) \<and>
   (PingContext p (1 * Second) = Some err \<longrightarrow>
      (\<exists>stats. Health rt p = Fatal stats \<and> stats ''status'' = Some ''down'' \<and>
           stats ''error'' = Some (''db down: '' @ ErrorString rt err))) \<and>
   (\<forall>stats. Health rt p = Returns stats \<longrightarrow>
      PingContext p (1 * Second) = None \<and> stats ''status'' = Some ''up'')"
proof (intro conjI impI allI)
  show "1 * Second = 1000000000" by (simp add: Second_def)
next
  assume "PingContext p (1 * Second) = None"
  then show "\<exists>stats. Health rt p = Returns stats \<and>
           stats ''status'' = Some ''up'' \<and>
           stats ''message'' \<noteq> None \<and>
           stats ''open_connections'' = Some (Itoa (OpenConnections (Stats p))) \<and>
           stats ''in_use'' = Some (Itoa (InUse (Stats p))) \<and>
           stats ''idle'' = Some (Itoa (Idle (Stats p))) \<and>
           stats ''wait_count'' = Some (Itoa (WaitCount (Stats p))) \<and>
           stats ''wait_duration'' = Some (DurationString rt (WaitDuration (Stats p))) \<and>
           stats ''max_idle_closed'' = Some (Itoa (MaxIdleClosed (Stats p))) \<and>
           stats ''max_lifetime_closed'' = Some (Itoa (MaxLifetimeClosed (Stats p)))"
    by (rule Health_up)
next
  assume "PingContext p (1 * Second) = Some err"
  then show "\<exists>stats. Health rt p = Fatal stats \<and> stats ''status'' = Some ''down'' \<and>
           stats ''error'' = Some (''db down: '' @ ErrorString rt err)"
    by (rule Health_down)
next
  fix stats assume r: "Health rt p = Returns stats"
  show "PingContext p (1 * Second) = None"
  proof (cases "PingContext p (1 * Second)")
    case (Some e)
    from Health_down[OF Some, of rt] r show ?thesis by simp
  qed simp
  from Health_up[OF this, of rt] r show "stats ''status'' = Some ''up''" by auto
qed

theorem Health_up_or_fatal_witness:
  "PingContext busy_pool (1 * Second) = None \<and>
   (\<exists>stats. Health the_runtime busy_pool = Returns stats \<and> stats ''status'' = Some ''up'' \<and>
      stats ''message'' \<noteq> None \<and> stats ''open_connections'' = Some ''3'' \<and> stats ''idle'' = Some ''2'') \<and>
   PingContext dead_pool (1 * Second) = Some (StoreError ''context deadline exceeded'') \<and>
   (\<exists>stats. Health the_runtime dead_pool = Fatal stats \<and> stats ''status'' = Some ''down'' \<and>
      stats ''error'' = Some ''db down: context deadline exceeded'')"
proof -
  have up: "PingContext busy_pool (1 * Second) = None"
    by (simp add: busy_pool_def)
  have down: "PingContext dead_pool (1 * Second) = Some (StoreError ''context deadline exceeded'')"
    by (simp add: dead_pool_def)
  have n3: "Itoa (OpenConnections (Stats busy_pool)) = ''3''"
    by (simp add: busy_pool_def Itoa_def digits.simps)
  have n2: "Itoa (Idle (Stats busy_pool)) = ''2''"
    by (simp add: busy_pool_def Itoa_def digits.simps)
  have t: "ErrorString the_runtime (StoreError ''context deadline exceeded'') = ''context deadline exceeded''"
    by (simp add: the_runtime_def)
  note th1 = Health_up_or_fatal [of busy_pool the_runtime "StoreError ''context deadline exceeded''"]
  note th2 = Health_up_or_fatal [of dead_pool the_runtime "StoreError ''context deadline exceeded''"]
  from th1 up have a: "\<exists>stats. Health the_runtime busy_pool = Returns stats \<and> stats ''status'' = Some ''up'' \<and>
      stats ''message'' \<noteq> None \<and> stats ''open_connections'' = Some ''3'' \<and> stats ''idle'' = Some ''2''"
    unfolding n3 n2 by blast
  from th2 down have b: "\<exists>stats. Health the_runtime dead_pool = Fatal stats \<and> stats ''status'' = Some ''down'' \<and>
      stats ''error'' = Some (''db down: '' @ ''context deadline exceeded'')"
    unfolding t by blast
  show ?thesis using up down a b by simp
qed

end
